theory Spec2Isabelle
  imports Main "HOL-Library.Monad_Syntax"
begin

section \<open>Python values\<close>

text \<open>
  Upstream responses are decoded JSON documents. A Python \<open>dict\<close> is an association
  list read through \<open>map_of\<close> (the first binding of a key is the dict's value for it), a
  Python \<open>float\<close> is the finite value \<open>m * 2 ^ e\<close>. A \<open>char\<close> of a string stands for
  one code point, so that \<open>length\<close> is Python's \<open>len\<close>.
\<close>

datatype json =
    JNull
  | JBool bool
  | JInt int
  | JFloat int int
  | JStr string
  | JList "json list"
  | JObj "(string \<times> json) list"

text \<open>Python truthiness, as used by \<open>if x\<close>, \<open>x or y\<close> and \<open>not x\<close>.\<close>

fun truthy :: "json \<Rightarrow> bool" where
  "truthy JNull = False"
| "truthy (JBool b) = b"
| "truthy (JInt n) = (n \<noteq> 0)"
| "truthy (JFloat m e) = (m \<noteq> 0)"
| "truthy (JStr s) = (s \<noteq> [])"
| "truthy (JList xs) = (xs \<noteq> [])"
| "truthy (JObj kvs) = (kvs \<noteq> [])"

text \<open>\<open>a or b\<close>: the first operand when it is truthy, the second otherwise.\<close>

definition py_or :: "json \<Rightarrow> json \<Rightarrow> json" where
  "py_or a b = (if truthy a then a else b)"

text \<open>
  The implicit exceptions of Python are the value \<open>None\<close> of the helpers below:
  \<open>d.get(k, default)\<close> raises AttributeError unless \<open>d\<close> is a dict, iterating raises
  TypeError unless the value is a list, a dict (its keys, in order) or a string (its
  characters), \<open>len\<close> raises TypeError on the scalars.
\<close>

fun py_get :: "json \<Rightarrow> string \<Rightarrow> json \<Rightarrow> json option" where
  "py_get (JObj kvs) k dflt = Some (case map_of kvs k of None \<Rightarrow> dflt | Some v \<Rightarrow> v)"
| "py_get _ k dflt = None"

fun py_iter :: "json \<Rightarrow> json list option" where
  "py_iter (JList xs) = Some xs"
| "py_iter (JObj kvs) = Some (map JStr (remdups (map fst kvs)))"
| "py_iter (JStr s) = Some (map (\<lambda>c. JStr [c]) s)"
| "py_iter _ = None"

fun py_len :: "json \<Rightarrow> nat option" where
  "py_len (JList xs) = Some (length xs)"
| "py_len (JObj kvs) = Some (length (remdups (map fst kvs)))"
| "py_len (JStr s) = Some (length s)"
| "py_len _ = None"

text \<open>
  \<open>x[:n]\<close> for a slice with a non-negative bound: lists and strings are sliced, every
  other value raises TypeError (a dict raises as well: a slice is no key).
\<close>

fun py_slice_to :: "nat \<Rightarrow> json \<Rightarrow> json option" where
  "py_slice_to n (JList xs) = Some (JList (take n xs))"
| "py_slice_to n (JStr s) = Some (JStr (take n s))"
| "py_slice_to n _ = None"

text \<open>
  \<open>x[0]\<close>: the first element of a list, the first character of a string; IndexError on
  an empty one, KeyError on a dict (whose keys are strings), TypeError on a scalar.
\<close>

fun py_first :: "json \<Rightarrow> json option" where
  "py_first (JList (x # xs)) = Some x"
| "py_first (JStr (c # cs)) = Some (JStr [c])"
| "py_first _ = None"

text \<open>
  \<open>s.startswith(p)\<close> and \<open>s.replace(old, new)\<close> exist on strings only (AttributeError
  otherwise). \<open>replace\<close> rewrites the non-overlapping occurrences from the left; it is
  only ever called with a non-empty \<open>old\<close>.
\<close>

definition startswith :: "string \<Rightarrow> string \<Rightarrow> bool" where
  "startswith s p = (take (length p) s = p)"

function str_replace :: "string \<Rightarrow> string \<Rightarrow> string \<Rightarrow> string" where
  "str_replace old new s =
     (if s = [] then []
      else if old \<noteq> [] \<and> startswith s old
           then new @ str_replace old new (drop (length old) s)
      else hd s # str_replace old new (tl s))"
  by pat_completeness auto
termination
  by (relation "measure (\<lambda>(old, new, s). length s)") auto

declare str_replace.simps [simp del]

text \<open>
  The library functions whose exact behaviour the repository does not fix are taken as
  parameters: Python's \<open>int(s)\<close> and \<open>str(x)\<close>, and pydantic's validation of an \<open>int\<close>
  and of a \<open>float\<close> field (\<open>None\<close> is the ValueError or ValidationError).
\<close>

record pylib =
  int_of_str :: "string \<Rightarrow> int option"
  str_of :: "json \<Rightarrow> string"
  validate_int :: "json \<Rightarrow> int option"
  validate_float :: "json \<Rightarrow> (int \<times> int) option"


section \<open>The canonical result (services/external_apis.py)\<close>

datatype ExternalSource = GOOGLE_BOOKS | OPEN_LIBRARY

fun source_value :: "ExternalSource \<Rightarrow> string" where
  "source_value GOOGLE_BOOKS = ''google_books''"
| "source_value OPEN_LIBRARY = ''open_library''"

record ExternalBookResult =
  external_id :: string
  source :: ExternalSource
  title :: string
  authors :: "string list"
  description :: "string option"
  isbn_10 :: "string option"
  isbn_13 :: "string option"
  publisher :: "string option"
  published_date :: "string option"
  page_count :: "int option"
  categories :: "string list"
  language :: "string option"
  thumbnail_url :: "string option"
  preview_link :: "string option"
  info_link :: "string option"
  average_rating :: "(int \<times> int) option"
  ratings_count :: "int option"
  maturity_rating :: "string option"
  raw_metadata :: json

text \<open>
  The keyword arguments of the constructor call, before validation. An argument the
  call leaves out has its default: \<open>JNull\<close>, and \<open>JList []\<close> for the two lists.
\<close>

record kwargs =
  kw_external_id :: json
  kw_title :: json
  kw_authors :: json
  kw_description :: json
  kw_isbn_10 :: json
  kw_isbn_13 :: json
  kw_publisher :: json
  kw_published_date :: json
  kw_page_count :: json
  kw_categories :: json
  kw_language :: json
  kw_thumbnail_url :: json
  kw_preview_link :: json
  kw_info_link :: json
  kw_average_rating :: json
  kw_ratings_count :: json
  kw_maturity_rating :: json
  kw_raw_metadata :: json

definition kwargs_default :: kwargs where
  "kwargs_default =
     \<lparr>kw_external_id = JNull, kw_title = JNull, kw_authors = JList [],
      kw_description = JNull, kw_isbn_10 = JNull, kw_isbn_13 = JNull,
      kw_publisher = JNull, kw_published_date = JNull, kw_page_count = JNull,
      kw_categories = JList [], kw_language = JNull, kw_thumbnail_url = JNull,
      kw_preview_link = JNull, kw_info_link = JNull, kw_average_rating = JNull,
      kw_ratings_count = JNull, kw_maturity_rating = JNull, kw_raw_metadata = JObj []\<rparr>"

text \<open>
  Field validation: a \<open>str\<close> field takes a string only, \<open>str | None\<close> also null, a
  \<open>list[str]\<close> a list of strings, \<open>dict[str, Any]\<close> a dict. \<open>None\<close> is the
  ValidationError.
\<close>

fun val_str :: "json \<Rightarrow> string option" where
  "val_str (JStr s) = Some s"
| "val_str _ = None"

fun val_opt_str :: "json \<Rightarrow> string option option" where
  "val_opt_str JNull = Some None"
| "val_opt_str (JStr s) = Some (Some s)"
| "val_opt_str _ = None"

fun val_str_list_items :: "json list \<Rightarrow> string list option" where
  "val_str_list_items [] = Some []"
| "val_str_list_items (x # xs) =
     do { s \<leftarrow> val_str x; ss \<leftarrow> val_str_list_items xs; Some (s # ss) }"

fun val_str_list :: "json \<Rightarrow> string list option" where
  "val_str_list (JList xs) = val_str_list_items xs"
| "val_str_list _ = None"

definition val_opt_int :: "pylib \<Rightarrow> json \<Rightarrow> int option option" where
  "val_opt_int L v = (if v = JNull then Some None else map_option Some (validate_int L v))"

definition val_opt_float :: "pylib \<Rightarrow> json \<Rightarrow> (int \<times> int) option option" where
  "val_opt_float L v = (if v = JNull then Some None else map_option Some (validate_float L v))"

fun val_dict :: "json \<Rightarrow> json option" where
  "val_dict (JObj kvs) = Some (JObj kvs)"
| "val_dict _ = None"

definition new_ExternalBookResult ::
    "pylib \<Rightarrow> ExternalSource \<Rightarrow> kwargs \<Rightarrow> ExternalBookResult option" where
  "new_ExternalBookResult L src kw = do {
     v_external_id \<leftarrow> val_str (kw_external_id kw);
     v_title \<leftarrow> val_str (kw_title kw);
     v_authors \<leftarrow> val_str_list (kw_authors kw);
     v_description \<leftarrow> val_opt_str (kw_description kw);
     v_isbn_10 \<leftarrow> val_opt_str (kw_isbn_10 kw);
     v_isbn_13 \<leftarrow> val_opt_str (kw_isbn_13 kw);
     v_publisher \<leftarrow> val_opt_str (kw_publisher kw);
     v_published_date \<leftarrow> val_opt_str (kw_published_date kw);
     v_page_count \<leftarrow> val_opt_int L (kw_page_count kw);
     v_categories \<leftarrow> val_str_list (kw_categories kw);
     v_language \<leftarrow> val_opt_str (kw_language kw);
     v_thumbnail_url \<leftarrow> val_opt_str (kw_thumbnail_url kw);
     v_preview_link \<leftarrow> val_opt_str (kw_preview_link kw);
     v_info_link \<leftarrow> val_opt_str (kw_info_link kw);
     v_average_rating \<leftarrow> val_opt_float L (kw_average_rating kw);
     v_ratings_count \<leftarrow> val_opt_int L (kw_ratings_count kw);
     v_maturity_rating \<leftarrow> val_opt_str (kw_maturity_rating kw);
     v_raw_metadata \<leftarrow> val_dict (kw_raw_metadata kw);
     Some \<lparr>external_id = v_external_id, source = src, title = v_title,
           authors = v_authors, description = v_description,
           isbn_10 = v_isbn_10, isbn_13 = v_isbn_13, publisher = v_publisher,
           published_date = v_published_date, page_count = v_page_count,
           categories = v_categories, language = v_language,
           thumbnail_url = v_thumbnail_url, preview_link = v_preview_link,
           info_link = v_info_link, average_rating = v_average_rating,
           ratings_count = v_ratings_count, maturity_rating = v_maturity_rating,
           raw_metadata = v_raw_metadata\<rparr>
   }"


section \<open>Google Books: \<open>_parse_google_book\<close>\<close>

text \<open>
  The identifier loop: every entry tagged \<open>ISBN_10\<close> (or \<open>ISBN_13\<close>) assigns its
  variable, whatever it held before.
\<close>

fun google_isbn_loop :: "json list \<Rightarrow> json \<times> json \<Rightarrow> (json \<times> json) option" where
  "google_isbn_loop [] acc = Some acc"
| "google_isbn_loop (identifier # rest) (v_isbn_10, v_isbn_13) = do {
     id_type \<leftarrow> py_get identifier ''type'' (JStr []);
     if id_type = JStr ''ISBN_10'' then do {
       v \<leftarrow> py_get identifier ''identifier'' JNull;
       google_isbn_loop rest (v, v_isbn_13) }
     else if id_type = JStr ''ISBN_13'' then do {
       v \<leftarrow> py_get identifier ''identifier'' JNull;
       google_isbn_loop rest (v_isbn_10, v) }
     else google_isbn_loop rest (v_isbn_10, v_isbn_13)
   }"

text \<open>
  The thumbnail: the first truthy one of four named variants, in the order the source
  lists them, then \<open>http://\<close> rewritten to \<open>https://\<close>. A truthy value that is no
  string has no \<open>startswith\<close>.
\<close>

definition google_thumbnail :: "json \<Rightarrow> json option" where
  "google_thumbnail image_links = do {
     t \<leftarrow> py_get image_links ''thumbnail'' JNull;
     s \<leftarrow> py_get image_links ''smallThumbnail'' JNull;
     m \<leftarrow> py_get image_links ''medium'' JNull;
     l \<leftarrow> py_get image_links ''large'' JNull;
     Some (py_or t (py_or s (py_or m l)))
   }"

definition https_rewrite :: "json \<Rightarrow> json option" where
  "https_rewrite v_thumbnail_url =
     (if truthy v_thumbnail_url then
        (case v_thumbnail_url of
           JStr s \<Rightarrow> Some (if startswith s ''http://''
                           then JStr (str_replace ''http://'' ''https://'' s) else JStr s)
         | _ \<Rightarrow> None)
      else Some v_thumbnail_url)"

definition parse_google_book :: "pylib \<Rightarrow> json \<Rightarrow> ExternalBookResult option" where
  "parse_google_book L item = do {
     volume_info \<leftarrow> py_get item ''volumeInfo'' (JObj []);
     ids \<leftarrow> py_get volume_info ''industryIdentifiers'' (JList []);
     identifiers \<leftarrow> py_iter ids;
     (v_isbn_10, v_isbn_13) \<leftarrow> google_isbn_loop identifiers (JNull, JNull);
     image_links \<leftarrow> py_get volume_info ''imageLinks'' (JObj []);
     chosen \<leftarrow> google_thumbnail image_links;
     v_thumbnail_url \<leftarrow> https_rewrite chosen;
     v_id \<leftarrow> py_get item ''id'' (JStr []);
     v_title \<leftarrow> py_get volume_info ''title'' (JStr ''Unknown Title'');
     v_authors \<leftarrow> py_get volume_info ''authors'' (JList []);
     v_description \<leftarrow> py_get volume_info ''description'' JNull;
     v_publisher \<leftarrow> py_get volume_info ''publisher'' JNull;
     v_published_date \<leftarrow> py_get volume_info ''publishedDate'' JNull;
     v_page_count \<leftarrow> py_get volume_info ''pageCount'' JNull;
     v_categories \<leftarrow> py_get volume_info ''categories'' (JList []);
     v_language \<leftarrow> py_get volume_info ''language'' JNull;
     v_preview_link \<leftarrow> py_get volume_info ''previewLink'' JNull;
     v_info_link \<leftarrow> py_get volume_info ''infoLink'' JNull;
     v_average_rating \<leftarrow> py_get volume_info ''averageRating'' JNull;
     v_ratings_count \<leftarrow> py_get volume_info ''ratingsCount'' JNull;
     v_maturity_rating \<leftarrow> py_get volume_info ''maturityRating'' JNull;
     v_etag \<leftarrow> py_get item ''etag'' JNull;
     v_self_link \<leftarrow> py_get item ''selfLink'' JNull;
     v_sale_info \<leftarrow> py_get item ''saleInfo'' (JObj []);
     v_access_info \<leftarrow> py_get item ''accessInfo'' (JObj []);
     v_search_info \<leftarrow> py_get item ''searchInfo'' (JObj []);
     new_ExternalBookResult L GOOGLE_BOOKS
       \<lparr>kw_external_id = v_id, kw_title = v_title, kw_authors = v_authors,
        kw_description = v_description, kw_isbn_10 = v_isbn_10, kw_isbn_13 = v_isbn_13,
        kw_publisher = v_publisher, kw_published_date = v_published_date,
        kw_page_count = v_page_count, kw_categories = v_categories,
        kw_language = v_language, kw_thumbnail_url = v_thumbnail_url,
        kw_preview_link = v_preview_link, kw_info_link = v_info_link,
        kw_average_rating = v_average_rating, kw_ratings_count = v_ratings_count,
        kw_maturity_rating = v_maturity_rating,
        kw_raw_metadata = JObj [(''etag'', v_etag), (''selfLink'', v_self_link),
          (''volumeInfo'', volume_info), (''saleInfo'', v_sale_info),
          (''accessInfo'', v_access_info), (''searchInfo'', v_search_info)]\<rparr>
   }"


section \<open>Open Library: \<open>_parse_open_library_book\<close>\<close>

text \<open>An f-string renders a string as itself and any other value through \<open>str\<close>.\<close>

definition py_str :: "pylib \<Rightarrow> json \<Rightarrow> string" where
  "py_str L v = (case v of JStr s \<Rightarrow> s | _ \<Rightarrow> str_of L v)"

text \<open>
  The ISBN loop: an entry of length 10 is kept while \<open>isbn_10\<close> is still falsy, an
  entry of length 13 while \<open>isbn_13\<close> is. \<open>len\<close> is evaluated on every entry.
\<close>

fun ol_isbn_loop :: "json list \<Rightarrow> json \<times> json \<Rightarrow> (json \<times> json) option" where
  "ol_isbn_loop [] acc = Some acc"
| "ol_isbn_loop (isbn # rest) (v_isbn_10, v_isbn_13) = do {
     n \<leftarrow> py_len isbn;
     if n = 10 \<and> \<not> truthy v_isbn_10 then ol_isbn_loop rest (isbn, v_isbn_13)
     else if n = 13 \<and> \<not> truthy v_isbn_13 then ol_isbn_loop rest (v_isbn_10, isbn)
     else ol_isbn_loop rest (v_isbn_10, v_isbn_13)
   }"

text \<open>\<open>doc.get(k, [None])[0] if doc.get(k) else None\<close>\<close>

definition first_or_none :: "json \<Rightarrow> string \<Rightarrow> json option" where
  "first_or_none doc k = do {
     v \<leftarrow> py_get doc k JNull;
     if truthy v then do { d \<leftarrow> py_get doc k (JList [JNull]); py_first d }
     else Some JNull
   }"

definition cover_url_of :: "pylib \<Rightarrow> json \<Rightarrow> json" where
  "cover_url_of L cover_id =
     (if truthy cover_id
      then JStr (''https://covers.openlibrary.org/b/id/'' @ py_str L cover_id @ ''-M.jpg'')
      else JNull)"

text \<open>\<open>str(doc.get("first_publish_year", "")) if doc.get("first_publish_year") else None\<close>\<close>

definition publish_year_str :: "pylib \<Rightarrow> json \<Rightarrow> json" where
  "publish_year_str L year = (if truthy year then JStr (py_str L year) else JNull)"

definition parse_open_library_book :: "pylib \<Rightarrow> json \<Rightarrow> ExternalBookResult option" where
  "parse_open_library_book L doc = do {
     k \<leftarrow> py_get doc ''key'' (JStr []);
     work_key \<leftarrow> (case k of JStr s \<Rightarrow> Some (str_replace ''/works/'' [] s) | _ \<Rightarrow> None);
     if work_key = [] then None
     else do {
       cover_id \<leftarrow> py_get doc ''cover_i'' JNull;
       isbn_list \<leftarrow> py_get doc ''isbn'' (JList []);
       isbns \<leftarrow> py_iter isbn_list;
       (v_isbn_10, v_isbn_13) \<leftarrow> ol_isbn_loop isbns (JNull, JNull);
       v_title \<leftarrow> py_get doc ''title'' (JStr ''Unknown Title'');
       v_authors \<leftarrow> py_get doc ''author_name'' (JList []);
       v_publisher \<leftarrow> first_or_none doc ''publisher'';
       year \<leftarrow> py_get doc ''first_publish_year'' JNull;
       v_page_count \<leftarrow> py_get doc ''number_of_pages_median'' JNull;
       subject \<leftarrow> py_get doc ''subject'' (JList []);
       v_categories \<leftarrow> py_slice_to 5 subject;
       v_language \<leftarrow> first_or_none doc ''language'';
       new_ExternalBookResult L OPEN_LIBRARY
         (kwargs_default
           \<lparr>kw_external_id := JStr work_key, kw_title := v_title, kw_authors := v_authors,
            kw_isbn_10 := v_isbn_10, kw_isbn_13 := v_isbn_13, kw_publisher := v_publisher,
            kw_published_date := publish_year_str L year,
            kw_page_count := v_page_count, kw_categories := v_categories,
            kw_language := v_language, kw_thumbnail_url := cover_url_of L cover_id,
            kw_info_link := JStr (''https://openlibrary.org/works/'' @ work_key),
            kw_raw_metadata := doc\<rparr>)
     }
   }"


section \<open>The store and the outside world\<close>

type_synonym time = int

text \<open>A row of the table \<open>external_books\<close> (models/external_book.py).\<close>

record ExternalBook =
  b_id :: int
  b_source :: string
  b_external_id :: string
  b_title :: string
  b_authors :: "string list option"
  b_description :: "string option"
  b_cover_url :: "string option"
  b_published_date :: "string option"
  b_published_year :: "int option"
  b_language :: "string option"
  b_categories :: "string list option"
  b_isbn_10 :: "string option"
  b_isbn_13 :: "string option"
  b_publisher :: "string option"
  b_page_count :: "int option"
  b_average_rating :: "(int \<times> int) option"
  b_ratings_count :: "int option"
  b_metadata_json :: "json option"
  b_preview_link :: "string option"
  b_info_link :: "string option"
  b_download_url :: "string option"
  b_is_imported :: bool
  b_imported_book_id :: "int option"
  b_imported_by_id :: "int option"
  b_imported_at :: "time option"
  b_created_at :: time
  b_updated_at :: "time option"
  b_last_fetched_at :: "time option"

text \<open>
  An HTTP request, and what the client does with it: it raises
  \<open>httpx.TimeoutException\<close>, an \<open>httpx.RequestError\<close>, or another exception, or it
  returns a response with a status code and a body (\<open>None\<close>: the body is no JSON and
  \<open>response.json()\<close> raises).
\<close>

datatype request = GET string "(string \<times> json) list"

datatype http_outcome =
    TimeoutException
  | RequestError string
  | ClientError
  | HttpResponse int "json option"

text \<open>
  The environment: the library functions, the upstream services (their answer may
  depend on the requests sent so far), the configured API key, the clock (its value at
  the n-th reading), the conversion of a time difference to milliseconds, and the rows
  that the database refuses to write (an integer outside the column's range, a string
  longer than its column, a violated constraint).
\<close>

record env =
  lib :: pylib
  http :: "request list \<Rightarrow> request \<Rightarrow> http_outcome"
  google_api_key :: "string option"
  clock :: "nat \<Rightarrow> time"
  elapsed_ms :: "time \<Rightarrow> time \<Rightarrow> int"
  db_rejects :: "ExternalBook \<Rightarrow> bool"

text \<open>
  The mutable state: the requests sent so far, the number of clock readings, the rows
  of the table with the next primary key, whether the event loop that
  \<open>asyncio.get_event_loop()\<close> returns in this thread has been closed, and whether a
  commit has failed in the session of the running HTTP request.
\<close>

record world =
  sent :: "request list"
  ticks :: nat
  rows :: "ExternalBook list"
  next_id :: int
  loop_closed :: bool
  session_failed :: bool

definition http_get :: "env \<Rightarrow> request \<Rightarrow> world \<Rightarrow> http_outcome \<times> world" where
  "http_get E r w = (http E (sent w) r, w\<lparr>sent := sent w @ [r]\<rparr>)"

definition now :: "env \<Rightarrow> world \<Rightarrow> time \<times> world" where
  "now E w = (clock E (ticks w), w\<lparr>ticks := Suc (ticks w)\<rparr>)"

text \<open>
  Exceptions. \<open>ExternalAPIError\<close> carries source, message and status code; its message
  is kept structured. \<open>DatabaseError\<close> is what a commit raises when the database
  refuses a statement, \<open>PendingRollbackError\<close> what a session raises that is used again
  after such a failure without a rollback. \<open>PyError\<close> stands for every exception the
  source does not name (AttributeError, TypeError, a JSON decoding error, a
  ValidationError and the like).
\<close>

datatype message =
    RateLimitExceeded
  | ApiReturnedStatus int
  | RequestTimedOut
  | RequestFailed string
  | BookNotFound string
  | FailedToParse

datatype exn =
    ExternalAPIError ExternalSource message "int option"
  | UnsupportedSource string
  | RuntimeError string
  | DatabaseError
  | PendingRollbackError
  | PyError

fun status_code :: "exn \<Rightarrow> int option" where
  "status_code (ExternalAPIError s m c) = c"
| "status_code _ = None"

fun is_ExternalAPIError :: "exn \<Rightarrow> bool" where
  "is_ExternalAPIError (ExternalAPIError s m c) = True"
| "is_ExternalAPIError _ = False"


section \<open>Searching (services/external_apis.py)\<close>

record ExternalSearchResponse =
  sr_source :: ExternalSource
  sr_query :: string
  sr_total_items :: int
  sr_items :: "ExternalBookResult list"
  sr_search_time_ms :: int

definition GOOGLE_BOOKS_BASE_URL :: string where
  "GOOGLE_BOOKS_BASE_URL = ''https://www.googleapis.com/books/v1''"

definition OPEN_LIBRARY_BASE_URL :: string where
  "OPEN_LIBRARY_BASE_URL = ''https://openlibrary.org''"

definition MAX_RESULTS_LIMIT :: int where
  "MAX_RESULTS_LIMIT = 40"

text \<open>\<open>if v: params[k] = v\<close> for an optional string.\<close>

definition opt_param :: "string \<Rightarrow> string option \<Rightarrow> (string \<times> json) list" where
  "opt_param k v = (case v of None \<Rightarrow> [] | Some s \<Rightarrow> if s = [] then [] else [(k, JStr s)])"

text \<open>The request that \<open>search_google_books\<close> sends.\<close>

definition google_search_request ::
    "env \<Rightarrow> string \<Rightarrow> int \<Rightarrow> int \<Rightarrow> string option \<Rightarrow> string option \<Rightarrow> string option
     \<Rightarrow> request" where
  "google_search_request E query max_results start_index lang print_type order_by =
     GET (GOOGLE_BOOKS_BASE_URL @ ''/volumes'')
       ([(''q'', JStr query),
         (''maxResults'', JInt (min (max 1 max_results) MAX_RESULTS_LIMIT)),
         (''startIndex'', JInt start_index)]
        @ opt_param ''key'' (google_api_key E)
        @ opt_param ''langRestrict'' lang
        @ opt_param ''printType'' print_type
        @ opt_param ''orderBy'' order_by)"

text \<open>
  The part of a search after the response has been decoded: read the total and the
  items, parse every item (an item that does not parse is skipped), read the clock and
  build the response, whose \<open>total_items\<close> is validated as an \<open>int\<close>.
\<close>

definition build_search_response ::
    "env \<Rightarrow> ExternalSource \<Rightarrow> string \<Rightarrow> time \<Rightarrow> string \<Rightarrow> string
     \<Rightarrow> (json \<Rightarrow> ExternalBookResult option) \<Rightarrow> json \<Rightarrow> world
     \<Rightarrow> (exn + ExternalSearchResponse) \<times> world" where
  "build_search_response E src query start_time total_key items_key parse data w =
     (case do { v_total \<leftarrow> py_get data total_key (JInt 0);
                its \<leftarrow> py_get data items_key (JList []);
                xs \<leftarrow> py_iter its;
                Some (v_total, List.map_filter parse xs) } of
        None \<Rightarrow> (Inl PyError, w)
      | Some (v_total, parsed) \<Rightarrow>
          (let (end_time, w') = now E w in
           case validate_int (lib E) v_total of
             None \<Rightarrow> (Inl PyError, w')
           | Some n \<Rightarrow>
               (Inr \<lparr>sr_source = src, sr_query = query, sr_total_items = n,
                     sr_items = parsed,
                     sr_search_time_ms = elapsed_ms E end_time start_time\<rparr>, w')))"

definition search_google_books ::
    "env \<Rightarrow> string \<Rightarrow> int \<Rightarrow> int \<Rightarrow> string option \<Rightarrow> string option \<Rightarrow> string option
     \<Rightarrow> world \<Rightarrow> (exn + ExternalSearchResponse) \<times> world" where
  "search_google_books E query max_results start_index lang print_type order_by w =
     (let (start_time, w1) = now E w;
          (out, w2) = http_get E
             (google_search_request E query max_results start_index lang print_type order_by) w1
      in case out of
           TimeoutException \<Rightarrow>
             (Inl (ExternalAPIError GOOGLE_BOOKS RequestTimedOut None), w2)
         | RequestError m \<Rightarrow>
             (Inl (ExternalAPIError GOOGLE_BOOKS (RequestFailed m) None), w2)
         | ClientError \<Rightarrow> (Inl PyError, w2)
         | HttpResponse status body \<Rightarrow>
             if status = 429 then
               (Inl (ExternalAPIError GOOGLE_BOOKS RateLimitExceeded (Some 429)), w2)
             else if status \<noteq> 200 then
               (Inl (ExternalAPIError GOOGLE_BOOKS (ApiReturnedStatus status) (Some status)), w2)
             else (case body of
                     None \<Rightarrow> (Inl PyError, w2)
                   | Some data \<Rightarrow>
                       build_search_response E GOOGLE_BOOKS query start_time
                         ''totalItems'' ''items'' (parse_google_book (lib E)) data w2))"

text \<open>The request that \<open>search_open_library\<close> sends.\<close>

definition open_library_search_request :: "string \<Rightarrow> int \<Rightarrow> int \<Rightarrow> request" where
  "open_library_search_request query max_results page =
     GET (OPEN_LIBRARY_BASE_URL @ ''/search.json'')
       [(''q'', JStr query), (''limit'', JInt (min max_results 100)), (''page'', JInt page)]"

definition search_open_library ::
    "env \<Rightarrow> string \<Rightarrow> int \<Rightarrow> int \<Rightarrow> world \<Rightarrow> (exn + ExternalSearchResponse) \<times> world" where
  "search_open_library E query max_results page w =
     (let (start_time, w1) = now E w;
          (out, w2) = http_get E (open_library_search_request query max_results page) w1
      in case out of
           TimeoutException \<Rightarrow>
             (Inl (ExternalAPIError OPEN_LIBRARY RequestTimedOut None), w2)
         | RequestError m \<Rightarrow>
             (Inl (ExternalAPIError OPEN_LIBRARY (RequestFailed m) None), w2)
         | ClientError \<Rightarrow> (Inl PyError, w2)
         | HttpResponse status body \<Rightarrow>
             if status \<noteq> 200 then
               (Inl (ExternalAPIError OPEN_LIBRARY (ApiReturnedStatus status) (Some status)), w2)
             else (case body of
                     None \<Rightarrow> (Inl PyError, w2)
                   | Some data \<Rightarrow>
                       build_search_response E OPEN_LIBRARY query start_time
                         ''numFound'' ''docs'' (parse_open_library_book (lib E)) data w2))"

text \<open>
  \<open>search_all_sources\<close>. The first loop makes one coroutine per requested source, with
  the default arguments of the two searches; the second loop awaits them in order. An
  \<open>ExternalAPIError\<close> fills the slot with an empty response, any other exception
  leaves the function.
\<close>

fun search_source ::
    "env \<Rightarrow> string \<Rightarrow> int \<Rightarrow> ExternalSource \<Rightarrow> world
     \<Rightarrow> (exn + ExternalSearchResponse) \<times> world" where
  "search_source E query n GOOGLE_BOOKS w = search_google_books E query n 0 None None None w"
| "search_source E query n OPEN_LIBRARY w = search_open_library E query n 1 w"

definition empty_response :: "ExternalSource \<Rightarrow> string \<Rightarrow> ExternalSearchResponse" where
  "empty_response src query =
     \<lparr>sr_source = src, sr_query = query, sr_total_items = 0, sr_items = [],
      sr_search_time_ms = 0\<rparr>"

fun await_tasks ::
    "env \<Rightarrow> string \<Rightarrow> int \<Rightarrow> ExternalSource list
     \<Rightarrow> (ExternalSource \<rightharpoonup> ExternalSearchResponse) \<Rightarrow> world
     \<Rightarrow> (exn + (ExternalSource \<rightharpoonup> ExternalSearchResponse)) \<times> world" where
  "await_tasks E query n [] results w = (Inr results, w)"
| "await_tasks E query n (src # tasks) results w =
     (case search_source E query n src w of
        (Inr r, w') \<Rightarrow> await_tasks E query n tasks (results(src \<mapsto> r)) w'
      | (Inl e, w') \<Rightarrow>
          if is_ExternalAPIError e
          then await_tasks E query n tasks (results(src \<mapsto> empty_response src query)) w'
          else (Inl e, w'))"

definition search_all_sources ::
    "env \<Rightarrow> string \<Rightarrow> int \<Rightarrow> ExternalSource list option \<Rightarrow> world
     \<Rightarrow> (exn + (ExternalSource \<rightharpoonup> ExternalSearchResponse)) \<times> world" where
  "search_all_sources E query max_results_per_source sources w =
     (let srcs = (case sources of None \<Rightarrow> [GOOGLE_BOOKS, OPEN_LIBRARY] | Some l \<Rightarrow> l)
      in await_tasks E query max_results_per_source srcs Map.empty w)"


section \<open>Fetching details (services/external_apis.py)\<close>

definition get_google_book_details ::
    "env \<Rightarrow> string \<Rightarrow> world \<Rightarrow> (exn + ExternalBookResult) \<times> world" where
  "get_google_book_details E google_books_id w =
     (let (out, w1) = http_get E
             (GET (GOOGLE_BOOKS_BASE_URL @ ''/volumes/'' @ google_books_id)
                  (opt_param ''key'' (google_api_key E))) w
      in case out of
           TimeoutException \<Rightarrow>
             (Inl (ExternalAPIError GOOGLE_BOOKS RequestTimedOut None), w1)
         | RequestError m \<Rightarrow>
             (Inl (ExternalAPIError GOOGLE_BOOKS (RequestFailed m) None), w1)
         | ClientError \<Rightarrow> (Inl PyError, w1)
         | HttpResponse status body \<Rightarrow>
             if status = 404 then
               (Inl (ExternalAPIError GOOGLE_BOOKS (BookNotFound google_books_id) (Some 404)), w1)
             else if status \<noteq> 200 then
               (Inl (ExternalAPIError GOOGLE_BOOKS (ApiReturnedStatus status) (Some status)), w1)
             else (case body of
                     None \<Rightarrow> (Inl PyError, w1)
                   | Some data \<Rightarrow>
                       (case parse_google_book (lib E) data of
                          None \<Rightarrow> (Inl (ExternalAPIError GOOGLE_BOOKS FailedToParse None), w1)
                        | Some parsed \<Rightarrow> (Inr parsed, w1))))"

text \<open>
  The author loop of \<open>get_open_library_book_details\<close>: one more request per author
  reference with a truthy key. Whatever goes wrong inside the inner \<open>try\<close> drops that
  author; a reference that is no dict raises outside of it (\<open>None\<close>).
\<close>

fun ol_authors_loop ::
    "env \<Rightarrow> json list \<Rightarrow> json list \<Rightarrow> world \<Rightarrow> json list option \<times> world" where
  "ol_authors_loop E [] acc w = (Some acc, w)"
| "ol_authors_loop E (author_ref # rest) acc w =
     (case do { a \<leftarrow> py_get author_ref ''author'' (JObj []); py_get a ''key'' (JStr []) } of
        None \<Rightarrow> (None, w)
      | Some author_key \<Rightarrow>
          if truthy author_key then
            (let (out, w') = http_get E
                   (GET (OPEN_LIBRARY_BASE_URL @ py_str (lib E) author_key @ ''.json'') []) w
             in case out of
                  HttpResponse status body \<Rightarrow>
                    if status = 200 then
                      (case do { author_data \<leftarrow> body;
                                 py_get author_data ''name'' (JStr ''Unknown'') } of
                         None \<Rightarrow> ol_authors_loop E rest acc w'
                       | Some nm \<Rightarrow> ol_authors_loop E rest (acc @ [nm]) w')
                    else ol_authors_loop E rest acc w'
                | _ \<Rightarrow> ol_authors_loop E rest acc w')
          else ol_authors_loop E rest acc w)"

text \<open>The keyword arguments built from the work document and the collected authors.\<close>

definition ol_details_kwargs :: "pylib \<Rightarrow> string \<Rightarrow> json \<Rightarrow> json list \<Rightarrow> kwargs option" where
  "ol_details_kwargs L work_key work_data v_authors = do {
     covers \<leftarrow> py_get work_data ''covers'' JNull;
     cover_id \<leftarrow> (if truthy covers then py_first covers else Some JNull);
     d \<leftarrow> py_get work_data ''description'' JNull;
     v_description \<leftarrow> (case d of JObj kvs \<Rightarrow> py_get d ''value'' (JStr []) | _ \<Rightarrow> Some d);
     v_title \<leftarrow> py_get work_data ''title'' (JStr ''Unknown Title'');
     subjects \<leftarrow> py_get work_data ''subjects'' (JList []);
     v_categories \<leftarrow> py_slice_to 5 subjects;
     Some (kwargs_default
       \<lparr>kw_external_id := JStr work_key, kw_title := v_title,
        kw_authors := JList v_authors, kw_description := v_description,
        kw_categories := v_categories, kw_thumbnail_url := cover_url_of L cover_id,
        kw_info_link := JStr (''https://openlibrary.org/works/'' @ work_key),
        kw_raw_metadata := work_data\<rparr>)
   }"

definition get_open_library_book_details ::
    "env \<Rightarrow> string \<Rightarrow> world \<Rightarrow> (exn + ExternalBookResult) \<times> world" where
  "get_open_library_book_details E work_key w =
     (let (out, w1) = http_get E
             (GET (OPEN_LIBRARY_BASE_URL @ ''/works/'' @ work_key @ ''.json'') []) w
      in case out of
           TimeoutException \<Rightarrow>
             (Inl (ExternalAPIError OPEN_LIBRARY RequestTimedOut None), w1)
         | RequestError m \<Rightarrow>
             (Inl (ExternalAPIError OPEN_LIBRARY (RequestFailed m) None), w1)
         | ClientError \<Rightarrow> (Inl PyError, w1)
         | HttpResponse status body \<Rightarrow>
             if status = 404 then
               (Inl (ExternalAPIError OPEN_LIBRARY (BookNotFound work_key) (Some 404)), w1)
             else if status \<noteq> 200 then
               (Inl (ExternalAPIError OPEN_LIBRARY (ApiReturnedStatus status) (Some status)), w1)
             else (case body of
                     None \<Rightarrow> (Inl PyError, w1)
                   | Some work_data \<Rightarrow>
                      (case do { refs \<leftarrow> py_get work_data ''authors'' (JList []);
                                 py_iter refs } of
                         None \<Rightarrow> (Inl PyError, w1)
                       | Some author_refs \<Rightarrow>
                          (case ol_authors_loop E author_refs [] w1 of
                             (None, w2) \<Rightarrow> (Inl PyError, w2)
                           | (Some v_authors, w2) \<Rightarrow>
                              (case do { kw \<leftarrow> ol_details_kwargs (lib E) work_key work_data
                                                 v_authors;
                                         new_ExternalBookResult (lib E) OPEN_LIBRARY kw } of
                                 None \<Rightarrow> (Inl PyError, w2)
                               | Some r \<Rightarrow> (Inr r, w2))))))"


section \<open>The table \<open>external_books\<close>\<close>

text \<open>
  The session's reads and writes. The unique index on \<open>(source, external_id)\<close> and the
  primary key make \<open>scalar_one_or_none\<close> and \<open>db.get\<close> the first matching row. An
  insert takes the next primary key and the server's \<open>created_at\<close>; a committed
  update stamps \<open>updated_at\<close> (\<open>onupdate=func.now()\<close>). The server's clock is read as
  one more reading of the clock. A commit whose row the database refuses raises and
  writes nothing.
\<close>

definition db_find_key :: "world \<Rightarrow> string \<Rightarrow> string \<Rightarrow> ExternalBook option" where
  "db_find_key w src eid = find (\<lambda>b. b_source b = src \<and> b_external_id b = eid) (rows w)"

definition db_get :: "world \<Rightarrow> int \<Rightarrow> ExternalBook option" where
  "db_get w i = find (\<lambda>b. b_id b = i) (rows w)"

definition db_commit_update ::
    "env \<Rightarrow> ExternalBook \<Rightarrow> world \<Rightarrow> (exn + ExternalBook) \<times> world" where
  "db_commit_update E b w =
     (if db_rejects E b then (Inl DatabaseError, w)
      else (let (t, w') = now E w;
                b' = b\<lparr>b_updated_at := Some t\<rparr>
            in (Inr b',
                w'\<lparr>rows := map (\<lambda>x. if b_id x = b_id b then b' else x) (rows w')\<rparr>)))"

definition db_commit_insert ::
    "env \<Rightarrow> ExternalBook \<Rightarrow> world \<Rightarrow> (exn + ExternalBook) \<times> world" where
  "db_commit_insert E b w =
     (if db_rejects E b then (Inl DatabaseError, w)
      else (let (t, w') = now E w;
                b' = b\<lparr>b_id := next_id w', b_created_at := t\<rparr>
            in (Inr b', w'\<lparr>rows := rows w' @ [b'], next_id := next_id w' + 1\<rparr>)))"


section \<open>Importing one book\<close>

text \<open>
  The publication year: the first four characters of a date of at least four
  characters, when \<open>int\<close> accepts them.
\<close>

definition parse_published_year :: "pylib \<Rightarrow> string option \<Rightarrow> int option" where
  "parse_published_year L d =
     (case d of
        None \<Rightarrow> None
      | Some date_str \<Rightarrow>
          if date_str \<noteq> [] \<and> 4 \<le> length date_str then int_of_str L (take 4 date_str)
          else None)"

text \<open>\<open>a or b\<close> for an optional string \<open>a\<close>, with a required and with an optional \<open>b\<close>.\<close>

definition str_or :: "string option \<Rightarrow> string \<Rightarrow> string" where
  "str_or a b = (case a of None \<Rightarrow> b | Some s \<Rightarrow> if s = [] then b else s)"

definition opt_or :: "string option \<Rightarrow> string option \<Rightarrow> string option" where
  "opt_or a b = (case a of None \<Rightarrow> b | Some s \<Rightarrow> if s = [] then b else Some s)"

text \<open>
  The assignments of the branch "update existing record" and the constructor call of
  the branch "create new record"; the endpoint and the task share them.
\<close>

definition import_fields ::
    "ExternalBookResult \<Rightarrow> int option \<Rightarrow> string option \<Rightarrow> string option \<Rightarrow> string option
     \<Rightarrow> int option \<Rightarrow> time \<Rightarrow> time \<Rightarrow> ExternalBook \<Rightarrow> ExternalBook" where
  "import_fields book_data published_year o_title o_description o_language user_id t1 t2 existing =
     existing
       \<lparr>b_title := str_or o_title (title book_data),
        b_authors := Some (authors book_data),
        b_description := opt_or o_description (description book_data),
        b_cover_url := thumbnail_url book_data,
        b_published_date := published_date book_data,
        b_published_year := published_year,
        b_language := opt_or o_language (language book_data),
        b_categories := Some (categories book_data),
        b_isbn_10 := isbn_10 book_data,
        b_isbn_13 := isbn_13 book_data,
        b_publisher := publisher book_data,
        b_page_count := page_count book_data,
        b_average_rating := average_rating book_data,
        b_ratings_count := ratings_count book_data,
        b_preview_link := preview_link book_data,
        b_info_link := info_link book_data,
        b_metadata_json := Some (raw_metadata book_data),
        b_is_imported := True,
        b_imported_by_id := user_id,
        b_imported_at := Some t1,
        b_last_fetched_at := Some t2\<rparr>"

definition new_import_row ::
    "string \<Rightarrow> string \<Rightarrow> ExternalBookResult \<Rightarrow> int option \<Rightarrow> string option \<Rightarrow> string option
     \<Rightarrow> string option \<Rightarrow> int option \<Rightarrow> time \<Rightarrow> time \<Rightarrow> ExternalBook" where
  "new_import_row src eid book_data published_year o_title o_description o_language user_id t1 t2 =
     \<lparr>b_id = 0, b_source = src, b_external_id = eid,
      b_title = str_or o_title (title book_data),
      b_authors = Some (authors book_data),
      b_description = opt_or o_description (description book_data),
      b_cover_url = thumbnail_url book_data,
      b_published_date = published_date book_data,
      b_published_year = published_year,
      b_language = opt_or o_language (language book_data),
      b_categories = Some (categories book_data),
      b_isbn_10 = isbn_10 book_data,
      b_isbn_13 = isbn_13 book_data,
      b_publisher = publisher book_data,
      b_page_count = page_count book_data,
      b_average_rating = average_rating book_data,
      b_ratings_count = ratings_count book_data,
      b_metadata_json = Some (raw_metadata book_data),
      b_preview_link = preview_link book_data,
      b_info_link = info_link book_data,
      b_download_url = None,
      b_is_imported = True,
      b_imported_book_id = None,
      b_imported_by_id = user_id,
      b_imported_at = Some t1,
      b_created_at = 0,
      b_updated_at = None,
      b_last_fetched_at = Some t2\<rparr>"

text \<open>
  Create or update the record and return its primary key: two readings of
  \<open>datetime.utcnow()\<close>, then the commit, whose exception is not caught here.
\<close>

definition store_import ::
    "env \<Rightarrow> ExternalBook option \<Rightarrow> string \<Rightarrow> string \<Rightarrow> ExternalBookResult
     \<Rightarrow> string option \<Rightarrow> string option \<Rightarrow> string option \<Rightarrow> int option \<Rightarrow> world
     \<Rightarrow> (exn + int) \<times> world" where
  "store_import E existing src eid book_data o_title o_description o_language user_id w =
     (let published_year = parse_published_year (lib E) (published_date book_data);
          (t1, w1) = now E w;
          (t2, w2) = now E w1
      in case existing of
           Some row \<Rightarrow>
             (case db_commit_update E
                    (import_fields book_data published_year o_title o_description o_language
                       user_id t1 t2 row) w2 of
                (Inl e, w3) \<Rightarrow> (Inl e, w3)
              | (Inr row', w3) \<Rightarrow> (Inr (b_id row'), w3))
         | None \<Rightarrow>
             (case db_commit_insert E
                    (new_import_row src eid book_data published_year o_title o_description
                       o_language user_id t1 t2) w2 of
                (Inl e, w3) \<Rightarrow> (Inl e, w3)
              | (Inr row', w3) \<Rightarrow> (Inr (b_id row'), w3)))"

text \<open>The text of an \<open>error\<close> field: a literal, or \<open>str(e)\<close> of the exception caught.\<close>

datatype error_text = Text string | StrOf exn

subsection \<open>The endpoint \<open>import_external_book\<close> (api/endpoints/external.py)\<close>

record ExternalBookImportRequest =
  rq_source :: ExternalSource
  rq_external_id :: string
  rq_title :: "string option"
  rq_author :: "string option"
  rq_description :: "string option"
  rq_category :: "string option"
  rq_language :: "string option"

record ImportResult =
  ir_external_id :: string
  ir_source :: ExternalSource
  ir_success :: bool
  ir_message :: string
  ir_external_book_id :: "int option"
  ir_error :: "error_text option"

fun get_details ::
    "env \<Rightarrow> ExternalSource \<Rightarrow> string \<Rightarrow> world \<Rightarrow> (exn + ExternalBookResult) \<times> world" where
  "get_details E GOOGLE_BOOKS eid w = get_google_book_details E eid w"
| "get_details E OPEN_LIBRARY eid w = get_open_library_book_details E eid w"

text \<open>
  The endpoint works on the session of its HTTP request, which a bulk request shares
  between its items. Once a commit has failed in it, the session has to be rolled back
  before it is used again; the endpoint never does that, so the next statement on the
  session raises.
\<close>

definition import_external_book ::
    "env \<Rightarrow> int \<Rightarrow> ExternalBookImportRequest \<Rightarrow> world \<Rightarrow> (exn + ImportResult) \<times> world" where
  "import_external_book E current_user_id request w =
     (let existing = db_find_key w (source_value (rq_source request)) (rq_external_id request)
      in if session_failed w then (Inl PendingRollbackError, w)
         else if (case existing of Some row \<Rightarrow> b_is_imported row | None \<Rightarrow> False) then
           (Inr \<lparr>ir_external_id = rq_external_id request, ir_source = rq_source request,
                 ir_success = True, ir_message = ''Book already imported'',
                 ir_external_book_id = map_option b_id existing, ir_error = None\<rparr>, w)
         else
           (case get_details E (rq_source request) (rq_external_id request) w of
              (Inl e, w1) \<Rightarrow>
                if is_ExternalAPIError e then
                  (Inr \<lparr>ir_external_id = rq_external_id request, ir_source = rq_source request,
                        ir_success = False, ir_message = ''Failed to fetch book details'',
                        ir_external_book_id = None, ir_error = Some (StrOf e)\<rparr>, w1)
                else (Inl e, w1)
            | (Inr book_data, w1) \<Rightarrow>
                (case store_import E existing (source_value (rq_source request))
                         (rq_external_id request) book_data (rq_title request)
                         (rq_description request) (rq_language request)
                         (Some current_user_id) w1 of
                   (Inl e, w2) \<Rightarrow> (Inl e, w2\<lparr>session_failed := True\<rparr>)
                 | (Inr external_book_id, w2) \<Rightarrow>
                     (Inr \<lparr>ir_external_id = rq_external_id request,
                           ir_source = rq_source request, ir_success = True,
                           ir_message = ''Book imported successfully'',
                           ir_external_book_id = Some external_book_id, ir_error = None\<rparr>,
                      w2))))"

subsection \<open>The task body \<open>_import_book_async\<close> (tasks/external_books.py)\<close>

text \<open>
  The tasks open a session of their own for every run (\<open>with SessionLocal() as db\<close>), so
  a failed commit raises and leaves nothing behind.
\<close>

record overrides =
  ov_title :: "string option"
  ov_description :: "string option"
  ov_language :: "string option"

record task_result =
  tr_success :: bool
  tr_external_id :: string
  tr_source :: string
  tr_external_book_id :: "int option"
  tr_message :: "string option"
  tr_error :: "error_text option"

definition get_details_by_name ::
    "env \<Rightarrow> string \<Rightarrow> string \<Rightarrow> world \<Rightarrow> (exn + ExternalBookResult) \<times> world" where
  "get_details_by_name E src eid w =
     (if src = ''google_books'' then get_google_book_details E eid w
      else if src = ''open_library'' then get_open_library_book_details E eid w
      else (Inl (UnsupportedSource src), w))"

definition import_book_async ::
    "env \<Rightarrow> string \<Rightarrow> string \<Rightarrow> int option \<Rightarrow> overrides option \<Rightarrow> world
     \<Rightarrow> (exn + task_result) \<times> world" where
  "import_book_async E src eid user_id metadata_overrides w =
     (case get_details_by_name E src eid w of
        (Inl e, w1) \<Rightarrow> (Inl e, w1)
      | (Inr book_data, w1) \<Rightarrow>
          (let o_title = (case metadata_overrides of Some ov \<Rightarrow> ov_title ov | None \<Rightarrow> None);
               o_description =
                 (case metadata_overrides of Some ov \<Rightarrow> ov_description ov | None \<Rightarrow> None);
               o_language =
                 (case metadata_overrides of Some ov \<Rightarrow> ov_language ov | None \<Rightarrow> None);
               existing = db_find_key w1 src eid
           in case store_import E existing src eid book_data o_title o_description o_language
                     user_id w1 of
                (Inl e, w2) \<Rightarrow> (Inl e, w2)
              | (Inr external_book_id, w2) \<Rightarrow>
                  (Inr \<lparr>tr_success = True, tr_external_id = eid, tr_source = src,
                        tr_external_book_id = Some external_book_id,
                        tr_message = Some ''Book imported successfully'', tr_error = None\<rparr>,
                   w2)))"


section \<open>Background tasks (tasks/external_books.py)\<close>

text \<open>
  \<open>run_async\<close> makes a new event loop, installs it as the thread's current loop, runs
  the coroutine on it and closes it in \<open>finally\<close>: whatever the coroutine did, the
  thread's current loop is a closed one afterwards.
\<close>

definition run_async :: "(world \<Rightarrow> 'a \<times> world) \<Rightarrow> world \<Rightarrow> 'a \<times> world" where
  "run_async coro w = (let (r, w') = coro w in (r, w'\<lparr>loop_closed := True\<rparr>))"

text \<open>
  \<open>asyncio.get_event_loop().run_until_complete(asyncio.sleep(0.5))\<close>: the current
  loop refuses to run anything once it is closed.
\<close>

definition sleep_on_current_loop :: "world \<Rightarrow> exn option" where
  "sleep_on_current_loop w =
     (if loop_closed w then Some (RuntimeError ''Event loop is closed'') else None)"

text \<open>
  What a run of a bound task ends in: a returned value, a retry scheduled after a
  countdown in seconds, or an exception. \<open>self.retry(exc=e, countdown=c)\<close> schedules the
  retry unless the run was already retry number \<open>max_retries\<close>, in which case it
  raises \<open>e\<close>.
\<close>

datatype 'a task_outcome = Returned 'a | RetryScheduled int | Raised exn

definition retry :: "nat \<Rightarrow> nat \<Rightarrow> exn \<Rightarrow> int \<Rightarrow> 'a task_outcome" where
  "retry max_retries retries exc countdown =
     (if max_retries < retries + 1 then Raised exc else RetryScheduled countdown)"

definition failed_result :: "string \<Rightarrow> string \<Rightarrow> exn \<Rightarrow> task_result" where
  "failed_result src eid e =
     \<lparr>tr_success = False, tr_external_id = eid, tr_source = src,
      tr_external_book_id = None, tr_message = None, tr_error = Some (StrOf e)\<rparr>"

text \<open>\<open>import_single_book\<close>, declared with \<open>max_retries=3\<close>; \<open>retries\<close> is \<open>self.request.retries\<close>.\<close>

definition import_single_book ::
    "env \<Rightarrow> nat \<Rightarrow> string \<Rightarrow> string \<Rightarrow> int option \<Rightarrow> overrides option \<Rightarrow> world
     \<Rightarrow> task_result task_outcome \<times> world" where
  "import_single_book E retries src eid user_id metadata_overrides w =
     (case run_async (import_book_async E src eid user_id metadata_overrides) w of
        (Inr result, w') \<Rightarrow> (Returned result, w')
      | (Inl e, w') \<Rightarrow>
          if is_ExternalAPIError e then
            (if status_code e = Some 429
             then (retry 3 retries e (60 * (int retries + 1)), w')
             else (Returned (failed_result src eid e), w'))
          else (Returned (failed_result src eid e), w'))"

subsection \<open>\<open>bulk_import_books\<close>\<close>

record bulk_item =
  it_source :: string
  it_external_id :: string
  it_overrides :: "overrides option"

record bulk_report =
  br_total :: int
  br_successful :: int
  br_failed :: int
  br_results :: "task_result list"

text \<open>
  The loop body for the item at index \<open>i\<close> of \<open>n\<close>, with the results and counters so
  far. The import runs inside \<open>try\<close>, where any exception becomes a failed result;
  the delay before the next item runs outside of it. Logging and the progress report
  to the task backend are left out.
\<close>

fun bulk_loop ::
    "env \<Rightarrow> int option \<Rightarrow> int \<Rightarrow> int \<Rightarrow> bulk_item list \<Rightarrow> task_result list \<Rightarrow> int \<Rightarrow> int
     \<Rightarrow> world \<Rightarrow> bulk_report task_outcome \<times> world" where
  "bulk_loop E user_id n i [] results successful failed w =
     (Returned \<lparr>br_total = n, br_successful = successful, br_failed = failed,
                br_results = results\<rparr>, w)"
| "bulk_loop E user_id n i (item # rest) results successful failed w =
     (case run_async (import_book_async E (it_source item) (it_external_id item) user_id
                        (it_overrides item)) w of
        (r, w1) \<Rightarrow>
          (let result = (case r of Inr res \<Rightarrow> res
                         | Inl e \<Rightarrow> failed_result (it_source item) (it_external_id item) e);
               successful' = (if tr_success result then successful + 1 else successful);
               failed' = (if tr_success result then failed else failed + 1)
           in if i < n - 1 then
                (case sleep_on_current_loop w1 of
                   Some e \<Rightarrow> (Raised e, w1)
                 | None \<Rightarrow> bulk_loop E user_id n (i + 1) rest (results @ [result])
                             successful' failed' w1)
              else bulk_loop E user_id n (i + 1) rest (results @ [result])
                     successful' failed' w1))"

definition bulk_import_books ::
    "env \<Rightarrow> bulk_item list \<Rightarrow> int option \<Rightarrow> world \<Rightarrow> bulk_report task_outcome \<times> world" where
  "bulk_import_books E items user_id w =
     bulk_loop E user_id (int (length items)) 0 items [] 0 0 w"

subsection \<open>\<open>update_book_metadata\<close> and \<open>_update_metadata_async\<close>\<close>

record update_result =
  ur_success :: bool
  ur_external_book_id :: int
  ur_message :: "string option"
  ur_error :: "error_text option"

definition refresh_fields ::
    "ExternalBookResult \<Rightarrow> int option \<Rightarrow> time \<Rightarrow> ExternalBook \<Rightarrow> ExternalBook" where
  "refresh_fields book_data published_year t book =
     book
       \<lparr>b_title := title book_data,
        b_authors := Some (authors book_data),
        b_description := description book_data,
        b_cover_url := thumbnail_url book_data,
        b_published_date := published_date book_data,
        b_published_year := published_year,
        b_language := language book_data,
        b_categories := Some (categories book_data),
        b_isbn_10 := isbn_10 book_data,
        b_isbn_13 := isbn_13 book_data,
        b_publisher := publisher book_data,
        b_page_count := page_count book_data,
        b_average_rating := average_rating book_data,
        b_ratings_count := ratings_count book_data,
        b_preview_link := preview_link book_data,
        b_info_link := info_link book_data,
        b_metadata_json := Some (raw_metadata book_data),
        b_last_fetched_at := Some t\<rparr>"

definition not_found_result :: "int \<Rightarrow> update_result" where
  "not_found_result external_book_id =
     \<lparr>ur_success = False, ur_external_book_id = external_book_id, ur_message = None,
      ur_error = Some (Text ''Book not found'')\<rparr>"

definition update_metadata_async ::
    "env \<Rightarrow> string \<Rightarrow> string \<Rightarrow> int \<Rightarrow> world \<Rightarrow> (exn + update_result) \<times> world" where
  "update_metadata_async E src eid external_book_id w =
     (case get_details_by_name E src eid w of
        (Inl e, w1) \<Rightarrow> (Inl e, w1)
      | (Inr book_data, w1) \<Rightarrow>
          (let published_year = parse_published_year (lib E) (published_date book_data)
           in case db_get w1 external_book_id of
                None \<Rightarrow> (Inr (not_found_result external_book_id), w1)
              | Some book \<Rightarrow>
                  (let (t, w2) = now E w1
                   in case db_commit_update E
                             (refresh_fields book_data published_year t book) w2 of
                        (Inl e, w3) \<Rightarrow> (Inl e, w3)
                      | (Inr book', w3) \<Rightarrow>
                          (Inr \<lparr>ur_success = True, ur_external_book_id = external_book_id,
                                ur_message = Some ''Metadata updated successfully'',
                                ur_error = None\<rparr>, w3))))"

definition failed_update :: "int \<Rightarrow> exn \<Rightarrow> update_result" where
  "failed_update external_book_id e =
     \<lparr>ur_success = False, ur_external_book_id = external_book_id, ur_message = None,
      ur_error = Some (StrOf e)\<rparr>"

definition update_book_metadata ::
    "env \<Rightarrow> nat \<Rightarrow> int \<Rightarrow> world \<Rightarrow> update_result task_outcome \<times> world" where
  "update_book_metadata E retries external_book_id w =
     (case db_get w external_book_id of
        None \<Rightarrow> (Returned (not_found_result external_book_id), w)
      | Some book \<Rightarrow>
          (case run_async (update_metadata_async E (b_source book) (b_external_id book)
                             external_book_id) w of
             (Inr result, w') \<Rightarrow> (Returned result, w')
           | (Inl e, w') \<Rightarrow>
               if is_ExternalAPIError e then
                 (if status_code e = Some 429
                  then (retry 3 retries e (60 * (int retries + 1)), w')
                  else (Returned (failed_update external_book_id e), w'))
               else (Returned (failed_update external_book_id e), w')))"


section \<open>The endpoint \<open>bulk_import_external_books\<close> (api/endpoints/external.py)\<close>

record BulkImportResponse =
  bi_total :: int
  bi_successful :: int
  bi_failed :: int
  bi_results :: "ImportResult list"
  bi_task_id :: "string option"

fun bulk_endpoint_loop ::
    "env \<Rightarrow> int \<Rightarrow> ExternalBookImportRequest list \<Rightarrow> ImportResult list \<Rightarrow> int \<Rightarrow> int
     \<Rightarrow> world \<Rightarrow> (ImportResult list \<times> int \<times> int) \<times> world" where
  "bulk_endpoint_loop E uid [] results successful failed w = ((results, successful, failed), w)"
| "bulk_endpoint_loop E uid (item # rest) results successful failed w =
     (case import_external_book E uid item w of
        (Inr result, w') \<Rightarrow>
          bulk_endpoint_loop E uid rest (results @ [result])
            (if ir_success result then successful + 1 else successful)
            (if ir_success result then failed else failed + 1) w'
      | (Inl e, w') \<Rightarrow>
          bulk_endpoint_loop E uid rest
            (results @ [\<lparr>ir_external_id = rq_external_id item, ir_source = rq_source item,
                          ir_success = False, ir_message = ''Import failed'',
                          ir_external_book_id = None, ir_error = Some (StrOf e)\<rparr>])
            successful (failed + 1) w')"

definition bulk_import_external_books ::
    "env \<Rightarrow> int \<Rightarrow> ExternalBookImportRequest list \<Rightarrow> world \<Rightarrow> BulkImportResponse \<times> world" where
  "bulk_import_external_books E uid items w =
     (case bulk_endpoint_loop E uid items [] 0 0 w of
        ((results, successful, failed), w') \<Rightarrow>
          (\<lparr>bi_total = int (length items), bi_successful = successful, bi_failed = failed,
            bi_results = results, bi_task_id = None\<rparr>, w'))"


section \<open>Notions used in the statements\<close>

text \<open>
  The image variant that the thumbnail is taken from, in the words of the parser's own
  order: the first of \<open>thumbnail\<close>, \<open>smallThumbnail\<close>, \<open>medium\<close>, \<open>large\<close> that the
  upstream object offers with a truthy value, and the value under \<open>large\<close> when none is.
\<close>

definition variant_order :: "string list" where
  "variant_order = [''thumbnail'', ''smallThumbnail'', ''medium'', ''large'']"

definition first_offered :: "(string \<times> json) list \<Rightarrow> json" where
  "first_offered links =
     (case find truthy (map (\<lambda>k. case map_of links k of None \<Rightarrow> JNull | Some v \<Rightarrow> v)
                          variant_order) of
        Some v \<Rightarrow> v
      | None \<Rightarrow> (case map_of links ''large'' of None \<Rightarrow> JNull | Some v \<Rightarrow> v))"

fun request_params :: "request \<Rightarrow> (string \<times> json) list" where
  "request_params (GET url ps) = ps"

text \<open>
  The searches of one fan-out, in the order they are awaited, each with what it
  returned or raised. A search ends the way the adapter contract foresees when it
  returns or raises \<open>ExternalAPIError\<close>.
\<close>

fun search_trace ::
    "env \<Rightarrow> string \<Rightarrow> int \<Rightarrow> ExternalSource list \<Rightarrow> world
     \<Rightarrow> (ExternalSource \<times> (exn + ExternalSearchResponse)) list" where
  "search_trace E query n [] w = []"
| "search_trace E query n (src # rest) w =
     (src, fst (search_source E query n src w))
       # search_trace E query n rest (snd (search_source E query n src w))"

fun adapter_outcome :: "exn + ExternalSearchResponse \<Rightarrow> bool" where
  "adapter_outcome (Inr r) = True"
| "adapter_outcome (Inl e) = is_ExternalAPIError e"

text \<open>The first exception among the outcomes that is no \<open>ExternalAPIError\<close>.\<close>

fun first_other_exception :: "(exn + 'a) list \<Rightarrow> exn option" where
  "first_other_exception [] = None"
| "first_other_exception (Inr r # outs) = first_other_exception outs"
| "first_other_exception (Inl e # outs) =
     (if is_ExternalAPIError e then first_other_exception outs else Some e)"

definition requested :: "ExternalSource list option \<Rightarrow> ExternalSource list" where
  "requested sources = (case sources of None \<Rightarrow> [GOOGLE_BOOKS, OPEN_LIBRARY] | Some l \<Rightarrow> l)"

text \<open>
  The retry policy of the two retrying tasks, stated on its own: an error with status
  429 is rescheduled after \<open>60 * (retries + 1)\<close> seconds while fewer than three retries
  have been made and raised after that; any other failure is returned at once.
\<close>

definition rate_limited :: "exn \<Rightarrow> bool" where
  "rate_limited e = (is_ExternalAPIError e \<and> status_code e = Some 429)"

definition bounded_backoff :: "nat \<Rightarrow> exn \<Rightarrow> 'a \<Rightarrow> 'a task_outcome" where
  "bounded_backoff retries e failure =
     (if rate_limited e
      then (if retries < 3 then RetryScheduled (60 * (int retries + 1)) else Raised e)
      else Returned failure)"


section \<open>Example inputs\<close>

definition lib_demo :: pylib where
  "lib_demo =
     \<lparr>int_of_str = (\<lambda>s. if s = ''1965'' then Some 1965 else None),
      str_of = (\<lambda>v. ''?''),
      validate_int = (\<lambda>v. case v of JInt n \<Rightarrow> Some n | _ \<Rightarrow> None),
      validate_float = (\<lambda>v. case v of JFloat m e \<Rightarrow> Some (m, e) | _ \<Rightarrow> None)\<rparr>"

definition w_empty :: world where
  "w_empty = \<lparr>sent = [], ticks = 0, rows = [], next_id = 1, loop_closed = False,
      session_failed = False\<rparr>"

definition env_timeout :: env where
  "env_timeout =
     \<lparr>lib = lib_demo, http = (\<lambda>hist r. TimeoutException), google_api_key = None,
      clock = (\<lambda>n. int n), elapsed_ms = (\<lambda>a b. a - b),
      db_rejects = (\<lambda>b. False)\<rparr>"

definition env_rate_limited :: env where
  "env_rate_limited =
     \<lparr>lib = lib_demo, http = (\<lambda>hist r. HttpResponse 429 None), google_api_key = None,
      clock = (\<lambda>n. int n), elapsed_ms = (\<lambda>a b. a - b),
      db_rejects = (\<lambda>b. False)\<rparr>"

definition volume_dune :: json where
  "volume_dune =
     JObj [(''id'', JStr ''zyTCAlFPjgYC''),
           (''volumeInfo'', JObj [(''title'', JStr ''Dune''),
              (''authors'', JList [JStr ''Frank Herbert'']),
              (''publishedDate'', JStr ''1965-08-01''),
              (''categories'', JList [JStr ''Fiction''])])]"

definition env_dune :: env where
  "env_dune =
     \<lparr>lib = lib_demo, http = (\<lambda>hist r. HttpResponse 200 (Some volume_dune)),
      google_api_key = None, clock = (\<lambda>n. 1000 + int n), elapsed_ms = (\<lambda>a b. a - b),
      db_rejects = (\<lambda>b. False)\<rparr>"

definition row_dune :: ExternalBook where
  "row_dune =
     \<lparr>b_id = 7, b_source = ''google_books'', b_external_id = ''zyTCAlFPjgYC'',
      b_title = ''Dune'', b_authors = Some [''Frank Herbert''], b_description = None,
      b_cover_url = None, b_published_date = Some ''1965-08-01'', b_published_year = Some 1965,
      b_language = None, b_categories = Some [], b_isbn_10 = None, b_isbn_13 = None,
      b_publisher = None, b_page_count = None, b_average_rating = None,
      b_ratings_count = None, b_metadata_json = None, b_preview_link = None,
      b_info_link = None, b_download_url = None, b_is_imported = True,
      b_imported_book_id = None, b_imported_by_id = Some 1, b_imported_at = Some 10,
      b_created_at = 10, b_updated_at = None, b_last_fetched_at = Some 10\<rparr>"

definition w_imported :: world where
  "w_imported = \<lparr>sent = [], ticks = 0, rows = [row_dune], next_id = 8, loop_closed = False,
      session_failed = False\<rparr>"

definition item_two_sizes :: json where
  "item_two_sizes =
     JObj [(''id'', JStr ''zyTCAlFPjgYC''),
           (''volumeInfo'', JObj [(''title'', JStr ''Dune''),
              (''imageLinks'',
                 JObj [(''smallThumbnail'', JStr ''http://books.example/small.jpg''),
                       (''large'', JStr ''http://books.example/large.jpg'')])])]"

definition seven_subjects :: "json list" where
  "seven_subjects =
     [JStr ''Fiction'', JStr ''Science fiction'', JStr ''Deserts'', JStr ''Ecology'',
      JStr ''Politics'', JStr ''Religion'', JStr ''Empires'']"

definition doc_dune :: json where
  "doc_dune =
     JObj [(''key'', JStr ''/works/OL893415W''), (''title'', JStr ''Dune''),
           (''subject'', JList seven_subjects)]"

definition work_dune :: json where
  "work_dune = JObj [(''title'', JStr ''Dune''), (''subjects'', JList seven_subjects)]"

definition env_work :: env where
  "env_work =
     \<lparr>lib = lib_demo, http = (\<lambda>hist r. HttpResponse 200 (Some work_dune)),
      google_api_key = None, clock = (\<lambda>n. int n), elapsed_ms = (\<lambda>a b. a - b),
      db_rejects = (\<lambda>b. False)\<rparr>"

text \<open>Google Books answers 429, Open Library answers with one document.\<close>

definition env_fan_out :: env where
  "env_fan_out =
     \<lparr>lib = lib_demo,
      http = (\<lambda>hist r. case r of GET url ps \<Rightarrow>
                if url = GOOGLE_BOOKS_BASE_URL @ ''/volumes'' then HttpResponse 429 None
                else HttpResponse 200
                       (Some (JObj [(''numFound'', JInt 1), (''docs'', JList [doc_dune])]))),
      google_api_key = None, clock = (\<lambda>n. int n), elapsed_ms = (\<lambda>a b. a - b),
      db_rejects = (\<lambda>b. False)\<rparr>"

text \<open>
  Both services answer with an empty result. The clock shows 0, 2000, 2001 and 2003
  milliseconds at its first four readings: the first search takes two seconds.
\<close>

definition env_slow_first :: env where
  "env_slow_first =
     \<lparr>lib = lib_demo, http = (\<lambda>hist r. HttpResponse 200 (Some (JObj []))),
      google_api_key = None,
      clock = (\<lambda>n. if n = 0 then 0 else if n = 1 then 2000 else if n = 2 then 2001 else 2003),
      elapsed_ms = (\<lambda>a b. a - b),
      db_rejects = (\<lambda>b. False)\<rparr>"

text \<open>Google Books answers 200 with a JSON array where an object is expected.\<close>

definition env_array_body :: env where
  "env_array_body =
     \<lparr>lib = lib_demo, http = (\<lambda>hist r. HttpResponse 200 (Some (JList []))),
      google_api_key = None, clock = (\<lambda>n. int n), elapsed_ms = (\<lambda>a b. a - b),
      db_rejects = (\<lambda>b. False)\<rparr>"


section \<open>Properties of the parsers\<close>

lemma new_result_fields:
  assumes "new_ExternalBookResult L src kw = Some r"
  shows "val_opt_str (kw_thumbnail_url kw) = Some (thumbnail_url r)
       \<and> val_str_list (kw_categories kw) = Some (categories r)
       \<and> val_opt_str (kw_isbn_10 kw) = Some (isbn_10 r)
       \<and> val_opt_str (kw_isbn_13 kw) = Some (isbn_13 r)"
  using assms
  by (auto simp: new_ExternalBookResult_def bind_eq_Some_conv)

lemma parse_google_book_SomeD:
  assumes "parse_google_book L item = Some r"
  shows "\<exists>vi ids identifiers i10 i13 il chosen thumb cats.
    py_get item ''volumeInfo'' (JObj []) = Some vi \<and>
    py_get vi ''industryIdentifiers'' (JList []) = Some ids \<and>
    py_iter ids = Some identifiers \<and>
    google_isbn_loop identifiers (JNull, JNull) = Some (i10, i13) \<and>
    py_get vi ''imageLinks'' (JObj []) = Some il \<and>
    google_thumbnail il = Some chosen \<and>
    https_rewrite chosen = Some thumb \<and>
    py_get vi ''categories'' (JList []) = Some cats \<and>
    val_opt_str thumb = Some (thumbnail_url r) \<and>
    val_str_list cats = Some (categories r) \<and>
    val_opt_str i10 = Some (isbn_10 r) \<and>
    val_opt_str i13 = Some (isbn_13 r)"
  using assms
  unfolding parse_google_book_def
  by (clarsimp simp: bind_eq_Some_conv dest!: new_result_fields)

lemma google_thumbnail_first_offered:
  "google_thumbnail il = Some chosen \<Longrightarrow> \<exists>links. il = JObj links \<and> chosen = first_offered links"
  by (cases il) (auto simp: google_thumbnail_def first_offered_def variant_order_def py_or_def)

lemma https_rewrite_valid:
  "https_rewrite chosen = Some thumb \<Longrightarrow> val_opt_str thumb = Some t \<Longrightarrow>
   t = (case chosen of
          JStr s \<Rightarrow> Some (if startswith s ''http://''
                          then str_replace ''http://'' ''https://'' s else s)
        | _ \<Rightarrow> None)"
  by (cases chosen) (auto simp: https_rewrite_def startswith_def split: if_splits)

lemma val_str_list_items_map: "val_str_list_items js = Some ss \<Longrightarrow> js = map JStr ss"
proof (induction js arbitrary: ss)
  case Nil
  then show ?case by simp
next
  case (Cons j js)
  then show ?case by (cases j) (auto simp: bind_eq_Some_conv)
qed

lemma val_str_list_map: "val_str_list v = Some ss \<Longrightarrow> v = JList (map JStr ss)"
  by (cases v) (auto dest: val_str_list_items_map)

lemma slice_valid:
  "py_slice_to n v = Some c \<Longrightarrow> val_str_list c = Some ss \<Longrightarrow>
   \<exists>js. v = JList js \<and> map JStr ss = take n js"
  by (cases v) (auto dest!: val_str_list_items_map [THEN sym])


subsection \<open>Thumbnail selection\<close>

text \<open>
  Claim C5 as the specification states it: of several named size variants the largest
  one becomes \<open>thumbnail_url\<close>, so \<open>large\<close> wins over \<open>smallThumbnail\<close>. The parser
  decides otherwise: for an item that offers exactly these two, the result carries the
  small one (rewritten to https), not the large one.
\<close>

theorem thumbnail_small_before_large:
  "map_option thumbnail_url (parse_google_book lib_demo item_two_sizes)
     = Some (Some ''https://books.example/small.jpg'')
   \<and> map_option thumbnail_url (parse_google_book lib_demo item_two_sizes)
     \<noteq> Some (Some ''https://books.example/large.jpg'')"
  by code_simp

text \<open>
  Claim C5, amended: whenever the Google Books parser produces a result, its
  \<open>thumbnail_url\<close> is the first variant offered in the fixed order \<open>thumbnail\<close>,
  \<open>smallThumbnail\<close>, \<open>medium\<close>, \<open>large\<close>, with \<open>http://\<close> rewritten to \<open>https://\<close>
  when the URL starts with it, and it is absent when no variant is offered.
\<close>

theorem google_thumbnail_preference:
  assumes "parse_google_book L item = Some r"
  shows "\<exists>vi links.
           py_get item ''volumeInfo'' (JObj []) = Some vi \<and>
           py_get vi ''imageLinks'' (JObj []) = Some (JObj links) \<and>
           thumbnail_url r =
             (case first_offered links of
                JStr s \<Rightarrow> Some (if startswith s ''http://''
                                then str_replace ''http://'' ''https://'' s else s)
              | _ \<Rightarrow> None)"
proof -
  from parse_google_book_SomeD [OF assms] obtain vi il chosen thumb where
    vi: "py_get item ''volumeInfo'' (JObj []) = Some vi" and
    il: "py_get vi ''imageLinks'' (JObj []) = Some il" and
    ch: "google_thumbnail il = Some chosen" and
    rw: "https_rewrite chosen = Some thumb" and
    va: "val_opt_str thumb = Some (thumbnail_url r)"
    by blast
  from google_thumbnail_first_offered [OF ch] obtain links where
    links: "il = JObj links" "chosen = first_offered links" by blast
  from https_rewrite_valid [OF rw va] links vi il show ?thesis by blast
qed

theorem google_thumbnail_preference_witness:
  "\<exists>r vi links.
     parse_google_book lib_demo item_two_sizes = Some r \<and>
     py_get item_two_sizes ''volumeInfo'' (JObj []) = Some vi \<and>
     py_get vi ''imageLinks'' (JObj []) = Some (JObj links) \<and>
     thumbnail_url r =
       (case first_offered links of
          JStr s \<Rightarrow> Some (if startswith s ''http://''
                          then str_replace ''http://'' ''https://'' s else s)
        | _ \<Rightarrow> None)"
proof -
  have "parse_google_book lib_demo item_two_sizes \<noteq> None" by code_simp
  then obtain r where r: "parse_google_book lib_demo item_two_sizes = Some r" by blast
  from google_thumbnail_preference [OF r] r show ?thesis by blast
qed


subsection \<open>ISBN extraction\<close>

text \<open>
  In the Google Books loop an entry tagged \<open>ISBN_10\<close> at the end of the identifier list
  overwrites whatever an earlier entry assigned.
\<close>

lemma google_isbn_loop_last_entry:
  "google_isbn_loop (ids @ [JObj [(''type'', JStr ''ISBN_10''), (''identifier'', v)]]) acc
     = map_option (\<lambda>p. (v, snd p)) (google_isbn_loop ids acc)"
proof (induction ids arbitrary: acc)
  case Nil
  then show ?case by (cases acc) simp
next
  case (Cons i ids)
  obtain a b where acc: "acc = (a, b)" by (cases acc)
  show ?case
  proof (cases "py_get i ''type'' (JStr [])")
    case None
    then show ?thesis by (simp add: acc)
  next
    case (Some t)
    show ?thesis
    proof (cases "py_get i ''identifier'' JNull")
      case None
      with Some show ?thesis by (simp add: acc Cons.IH)
    next
      case (Some u)
      with \<open>py_get i ''type'' (JStr []) = Some t\<close> show ?thesis by (simp add: acc Cons.IH)
    qed
  qed
qed

text \<open>
  Claim C6 (first match of each type wins, for both adapters), evaluated on an
  identifier list with two entries of type ISBN-10: the Google Books parser returns the
  second one, where the claim promises the first; the Open Library parser, on the same
  two values, returns the first.
\<close>

theorem google_isbn_last_match:
  "map_option isbn_10 (parse_google_book lib_demo
      (JObj [(''id'', JStr ''zyTCAlFPjgYC''),
             (''volumeInfo'', JObj [(''industryIdentifiers'', JList
                [JObj [(''type'', JStr ''ISBN_10''), (''identifier'', JStr ''0441013597'')],
                 JObj [(''type'', JStr ''ISBN_10''), (''identifier'', JStr ''0340960191'')]])])]))
     = Some (Some ''0340960191'')
   \<and> map_option isbn_10 (parse_open_library_book lib_demo
      (JObj [(''key'', JStr ''/works/OL893415W''),
             (''isbn'', JList [JStr ''0441013597'', JStr ''0340960191''])]))
     = Some (Some ''0441013597'')"
  by code_simp


subsection \<open>Categories\<close>

lemma parse_open_library_categories:
  assumes "parse_open_library_book L doc = Some r"
  shows "\<exists>js. py_get doc ''subject'' (JList []) = Some (JList js)
             \<and> map JStr (categories r) = take 5 js"
proof -
  from assms obtain subject c where
    s: "py_get doc ''subject'' (JList []) = Some subject" and
    c: "py_slice_to 5 subject = Some c" and
    v: "val_str_list c = Some (categories r)"
    unfolding parse_open_library_book_def
    by (clarsimp simp: bind_eq_Some_conv kwargs_default_def split: if_splits
          dest!: new_result_fields)
  from slice_valid [OF c v] s show ?thesis by auto
qed

lemma open_library_details_categories:
  assumes "get_open_library_book_details E work_key w = (Inr r, w')"
  shows "\<exists>work_data js.
           http E (sent w) (GET (OPEN_LIBRARY_BASE_URL @ ''/works/'' @ work_key @ ''.json'') [])
             = HttpResponse 200 (Some work_data)
           \<and> py_get work_data ''subjects'' (JList []) = Some (JList js)
           \<and> map JStr (categories r) = take 5 js"
proof -
  from assms obtain work_data kw where
    h: "http E (sent w) (GET (OPEN_LIBRARY_BASE_URL @ ''/works/'' @ work_key @ ''.json'') [])
          = HttpResponse 200 (Some work_data)" and
    kw: "\<exists>a. ol_details_kwargs (lib E) work_key work_data a = Some kw" and
    r: "new_ExternalBookResult (lib E) OPEN_LIBRARY kw = Some r"
    unfolding get_open_library_book_details_def http_get_def
    by (auto simp: bind_eq_Some_conv
             split: http_outcome.splits if_splits option.splits prod.splits)
  from kw obtain subjects c where
    s: "py_get work_data ''subjects'' (JList []) = Some subjects" and
    c: "py_slice_to 5 subjects = Some c" and
    k: "kw_categories kw = c"
    unfolding ol_details_kwargs_def
    by (auto simp: bind_eq_Some_conv kwargs_default_def)
  from new_result_fields [OF r] k have v: "val_str_list c = Some (categories r)" by simp
  from slice_valid [OF c v] s h show ?thesis by auto
qed

lemma parse_google_categories:
  assumes "parse_google_book L item = Some r"
  shows "\<exists>vi. py_get item ''volumeInfo'' (JObj []) = Some vi
           \<and> py_get vi ''categories'' (JList []) = Some (JList (map JStr (categories r)))"
proof -
  from parse_google_book_SomeD [OF assms] obtain vi cats where
    "py_get item ''volumeInfo'' (JObj []) = Some vi"
    "py_get vi ''categories'' (JList []) = Some cats"
    "val_str_list cats = Some (categories r)" by blast
  then show ?thesis by (auto dest: val_str_list_map)
qed

lemma take_length_le: "map f xs = take n js \<Longrightarrow> length xs \<le> n"
  by (metis length_map length_take min.cobounded2)

text \<open>
  Claim C10: a result of the Open Library adapter, from a search document as from the
  work details, carries the first five upstream subjects in upstream order and nothing
  more, so at most five categories; a result of the Google Books adapter carries the whole
  upstream category list.
\<close>

theorem category_truncation:
  "(parse_open_library_book L doc = Some r \<longrightarrow>
      (\<exists>js. py_get doc ''subject'' (JList []) = Some (JList js)
           \<and> map JStr (categories r) = take 5 js \<and> length (categories r) \<le> 5))
   \<and> (get_open_library_book_details E work_key w = (Inr r', w') \<longrightarrow>
      (\<exists>work_data js.
           http E (sent w) (GET (OPEN_LIBRARY_BASE_URL @ ''/works/'' @ work_key @ ''.json'') [])
             = HttpResponse 200 (Some work_data)
           \<and> py_get work_data ''subjects'' (JList []) = Some (JList js)
           \<and> map JStr (categories r') = take 5 js \<and> length (categories r') \<le> 5))
   \<and> (parse_google_book L item = Some r'' \<longrightarrow>
      (\<exists>vi. py_get item ''volumeInfo'' (JObj []) = Some vi
           \<and> py_get vi ''categories'' (JList []) = Some (JList (map JStr (categories r'')))))"
proof (intro conjI impI)
  assume "parse_open_library_book L doc = Some r"
  from parse_open_library_categories [OF this]
  show "\<exists>js. py_get doc ''subject'' (JList []) = Some (JList js)
           \<and> map JStr (categories r) = take 5 js \<and> length (categories r) \<le> 5"
    by (blast dest: take_length_le)
next
  assume "get_open_library_book_details E work_key w = (Inr r', w')"
  from open_library_details_categories [OF this]
  show "\<exists>work_data js.
           http E (sent w) (GET (OPEN_LIBRARY_BASE_URL @ ''/works/'' @ work_key @ ''.json'') [])
             = HttpResponse 200 (Some work_data)
           \<and> py_get work_data ''subjects'' (JList []) = Some (JList js)
           \<and> map JStr (categories r') = take 5 js \<and> length (categories r') \<le> 5"
    by (blast dest: take_length_le)
next
  assume "parse_google_book L item = Some r''"
  from parse_google_categories [OF this]
  show "\<exists>vi. py_get item ''volumeInfo'' (JObj []) = Some vi
           \<and> py_get vi ''categories'' (JList []) = Some (JList (map JStr (categories r'')))" .
qed

theorem category_truncation_witness:
  "\<exists>r r' w' r''.
     parse_open_library_book lib_demo doc_dune = Some r
   \<and> get_open_library_book_details env_work ''OL893415W'' w_empty = (Inr r', w')
   \<and> parse_google_book lib_demo volume_dune = Some r''
   \<and> map JStr (categories r) = take 5 seven_subjects \<and> length (categories r) \<le> 5
   \<and> map JStr (categories r') = take 5 seven_subjects \<and> length (categories r') \<le> 5
   \<and> map JStr (categories r'') = [JStr ''Fiction'']"
proof -
  have "parse_open_library_book lib_demo doc_dune \<noteq> None" by code_simp
  then obtain r where r: "parse_open_library_book lib_demo doc_dune = Some r" by blast
  have "case get_open_library_book_details env_work ''OL893415W'' w_empty of
          (Inr x, w') \<Rightarrow> True | _ \<Rightarrow> False" by code_simp
  then obtain r' w' where
    r': "get_open_library_book_details env_work ''OL893415W'' w_empty = (Inr r', w')"
    by (auto split: prod.splits sum.splits)
  have "parse_google_book lib_demo volume_dune \<noteq> None" by code_simp
  then obtain r'' where r'': "parse_google_book lib_demo volume_dune = Some r''" by blast
  have s1: "py_get doc_dune ''subject'' (JList []) = Some (JList seven_subjects)"
    by (simp add: doc_dune_def)
  have s2: "http env_work (sent w_empty)
              (GET (OPEN_LIBRARY_BASE_URL @ ''/works/'' @ ''OL893415W'' @ ''.json'') [])
            = HttpResponse 200 (Some work_dune)"
    by (simp add: env_work_def)
  have s3: "py_get work_dune ''subjects'' (JList []) = Some (JList seven_subjects)"
    by (simp add: work_dune_def)
  have s4: "py_get volume_dune ''volumeInfo'' (JObj []) = Some vi \<Longrightarrow>
            py_get vi ''categories'' (JList []) = Some (JList [JStr ''Fiction''])" for vi
    by (auto simp: volume_dune_def)
  from category_truncation [of lib_demo doc_dune r env_work "''OL893415W''" w_empty r' w'
      volume_dune r''] r r' r'' s1 s2 s3 s4
  show ?thesis by fastforce
qed


section \<open>Properties of the searches\<close>

lemma sent_build_search_response:
  "sent (snd (build_search_response E src q st tk ik parse data w)) = sent w"
  by (auto simp: build_search_response_def now_def split: option.splits prod.splits)

lemma sent_search_google_books:
  "sent (snd (search_google_books E q n si lg pt ob w))
     = sent w @ [google_search_request E q n si lg pt ob]"
  by (auto simp: search_google_books_def now_def http_get_def sent_build_search_response
           split: http_outcome.splits option.splits prod.splits)

lemma sent_search_open_library:
  "sent (snd (search_open_library E q n pg w)) = sent w @ [open_library_search_request q n pg]"
  by (auto simp: search_open_library_def now_def http_get_def sent_build_search_response
           split: http_outcome.splits option.splits prod.splits)

text \<open>
  Claim C7 as the specification states it: every adapter clamps the limit it sends to
  the interval from 1 to 40. The Open Library search asked for 50 results sends 50, and
  asked for 0 results sends 0.
\<close>

theorem open_library_limit_not_clamped:
  "sent (snd (search_open_library env_fan_out ''dune'' 50 1 w_empty))
     = [GET ''https://openlibrary.org/search.json''
          [(''q'', JStr ''dune''), (''limit'', JInt 50), (''page'', JInt 1)]]
   \<and> sent (snd (search_open_library env_fan_out ''dune'' 0 1 w_empty))
     = [GET ''https://openlibrary.org/search.json''
          [(''q'', JStr ''dune''), (''limit'', JInt 0), (''page'', JInt 1)]]"
  by code_simp

text \<open>
  Claim C7, amended: the Google Books search sends exactly one request, whose
  \<open>maxResults\<close> is the argument clamped to the interval from 1 to 40; the Open Library
  search sends exactly one request, whose \<open>limit\<close> is the smaller of the argument and
  100, with no lower bound.
\<close>

theorem search_limit_sent:
  "(\<exists>m. sent (snd (search_google_books E q n si lg pt ob w))
            = sent w @ [google_search_request E q n si lg pt ob]
        \<and> map_of (request_params (google_search_request E q n si lg pt ob)) ''maxResults''
            = Some (JInt m)
        \<and> m = min (max 1 n) 40 \<and> 1 \<le> m \<and> m \<le> 40)
   \<and> (sent (snd (search_open_library E q n pg w))
            = sent w @ [open_library_search_request q n pg]
        \<and> map_of (request_params (open_library_search_request q n pg)) ''limit''
            = Some (JInt (min n 100))
        \<and> min n 100 \<le> 100)"
  by (simp add: sent_search_google_books sent_search_open_library google_search_request_def
        open_library_search_request_def MAX_RESULTS_LIMIT_def)


subsection \<open>Fan-out\<close>

lemma fst_search_trace: "map fst (search_trace E q n srcs w) = srcs"
  by (induction srcs arbitrary: w) auto

lemma await_tasks_total:
  assumes "\<forall>p \<in> set (search_trace E q n srcs w). adapter_outcome (snd p)"
  shows "\<exists>w'. await_tasks E q n srcs results w =
           (Inr (\<lambda>s. case map_of (rev (search_trace E q n srcs w)) s of
                        Some out \<Rightarrow> Some (case out of Inr r \<Rightarrow> r
                                           | Inl e \<Rightarrow> empty_response s q)
                      | None \<Rightarrow> results s), w')"
  using assms
proof (induction srcs arbitrary: results w)
  case Nil
  then show ?case by simp
next
  case (Cons src rest)
  let ?slot = "\<lambda>s out. case out of Inr r \<Rightarrow> r | Inl e \<Rightarrow> empty_response s q"
  obtain out w1 where sw: "search_source E q n src w = (out, w1)"
    by (cases "search_source E q n src w")
  from Cons.prems sw have ok: "adapter_outcome out"
    and rest: "\<forall>p \<in> set (search_trace E q n rest w1). adapter_outcome (snd p)" by auto
  from Cons.IH [OF rest, of "results(src \<mapsto> ?slot src out)"] obtain w' where
    ih: "await_tasks E q n rest (results(src \<mapsto> ?slot src out)) w1 =
           (Inr (\<lambda>s. case map_of (rev (search_trace E q n rest w1)) s of
                        Some out' \<Rightarrow> Some (?slot s out')
                      | None \<Rightarrow> (results(src \<mapsto> ?slot src out)) s), w')" by blast
  have step: "await_tasks E q n (src # rest) results w
                = await_tasks E q n rest (results(src \<mapsto> ?slot src out)) w1"
    using sw ok by (cases out) auto
  have "(\<lambda>s. case map_of (rev (search_trace E q n rest w1)) s of
                        Some out' \<Rightarrow> Some (?slot s out')
                      | None \<Rightarrow> (results(src \<mapsto> ?slot src out)) s)
        = (\<lambda>s. case map_of (rev (search_trace E q n (src # rest) w)) s of
                        Some out \<Rightarrow> Some (?slot s out)
                      | None \<Rightarrow> results s)"
    using sw by (auto simp: fun_eq_iff map_add_def split: option.splits)
  with step ih show ?case by auto
qed

lemma map_of_rev_trace_dom:
  "(map_of (rev (search_trace E q n srcs w)) s \<noteq> None) = (s \<in> set srcs)"
proof -
  have "(map_of (rev (search_trace E q n srcs w)) s \<noteq> None)
          = (s \<in> fst ` set (rev (search_trace E q n srcs w)))"
    by (simp add: map_of_eq_None_iff)
  also have "\<dots> = (s \<in> set (map fst (search_trace E q n srcs w)))" by simp
  finally show ?thesis by (simp only: fst_search_trace)
qed

text \<open>
  Claim C2 as the specification states it promises a mapping for every query and every
  set of sources. A search that raises anything but \<open>ExternalAPIError\<close> ends the whole
  fan-out: here Google Books answers 200 with a JSON array, \<open>data.get\<close> raises
  AttributeError, and \<open>search_all_sources\<close> raises it instead of returning a mapping.
\<close>

theorem fan_out_other_exception:
  "fst (search_all_sources env_array_body ''dune'' 10 (Some [GOOGLE_BOOKS, OPEN_LIBRARY]) w_empty)
     = Inl PyError"
  by (simp add: search_all_sources_def search_google_books_def build_search_response_def
        now_def http_get_def env_array_body_def w_empty_def)

lemma await_tasks_raises:
  "first_other_exception (map snd (search_trace E q n srcs w)) = Some e \<Longrightarrow>
   fst (await_tasks E q n srcs results w) = Inl e"
proof (induction srcs arbitrary: results w)
  case Nil
  then show ?case by simp
next
  case (Cons src rest)
  obtain out w1 where sw: "search_source E q n src w = (out, w1)"
    by (cases "search_source E q n src w")
  show ?case
  proof (cases out)
    case (Inr r)
    with Cons.prems sw have "first_other_exception (map snd (search_trace E q n rest w1)) = Some e"
      by simp
    from Cons.IH [OF this] sw Inr show ?thesis by simp
  next
    case (Inl x)
    show ?thesis
    proof (cases "is_ExternalAPIError x")
      case True
      with Cons.prems sw Inl
      have "first_other_exception (map snd (search_trace E q n rest w1)) = Some e" by simp
      from Cons.IH [OF this] sw Inl True show ?thesis by simp
    next
      case False
      with Cons.prems sw Inl show ?thesis by simp
    qed
  qed
qed

text \<open>The two cases of the amended claim leave no third one.\<close>

lemma adapter_outcomes_or_exception:
  "list_all adapter_outcome outs = (first_other_exception outs = None)"
proof (induction outs)
  case Nil
  then show ?case by simp
next
  case (Cons out outs)
  then show ?case by (cases out) auto
qed

text \<open>
  Claim C2, amended: when every search of the fan-out returns or raises
  \<open>ExternalAPIError\<close>, \<open>search_all_sources\<close> returns a mapping whose keys are exactly the
  requested sources; the entry of a source whose search raised is the empty response
  (no items, total 0, time 0), and the entry of a source whose search returned is that
  response, unchanged. (For a source requested twice the later search counts.) When
  a search raises an exception of any other type, \<open>search_all_sources\<close> raises the
  first such exception and returns no mapping.
\<close>

theorem fan_out_isolation:
  "(list_all adapter_outcome (map snd (search_trace E q n (requested sources) w)) \<longrightarrow>
      (\<exists>m w'. search_all_sources E q n sources w = (Inr m, w')
           \<and> dom m = set (requested sources)
           \<and> (\<forall>s e. map_of (rev (search_trace E q n (requested sources) w)) s = Some (Inl e)
                 \<longrightarrow> m s = Some \<lparr>sr_source = s, sr_query = q, sr_total_items = 0,
                                  sr_items = [], sr_search_time_ms = 0\<rparr>)
           \<and> (\<forall>s r. map_of (rev (search_trace E q n (requested sources) w)) s = Some (Inr r)
                 \<longrightarrow> m s = Some r)))
   \<and> (first_other_exception (map snd (search_trace E q n (requested sources) w)) = Some x \<longrightarrow>
      fst (search_all_sources E q n sources w) = Inl x)"
proof (intro conjI impI)
  let ?tr = "search_trace E q n (requested sources) w"
  let ?m = "\<lambda>s. case map_of (rev ?tr) s of
                  Some out \<Rightarrow> Some (case out of Inr r \<Rightarrow> r | Inl e \<Rightarrow> empty_response s q)
                | None \<Rightarrow> Map.empty s"
  assume "list_all adapter_outcome (map snd ?tr)"
  then have "\<forall>p \<in> set ?tr. adapter_outcome (snd p)"
    by (simp add: list_all_iff)
  from await_tasks_total [OF this, of Map.empty] obtain w' where
    run: "await_tasks E q n (requested sources) Map.empty w = (Inr ?m, w')" by blast
  have ret: "search_all_sources E q n sources w = (Inr ?m, w')"
    using run by (simp add: search_all_sources_def requested_def)
  have d: "dom ?m = set (requested sources)"
  proof (rule set_eqI)
    fix s
    have "(s \<in> dom ?m) = (map_of (rev ?tr) s \<noteq> None)"
      by (auto simp: dom_def split: option.splits)
    then show "(s \<in> dom ?m) = (s \<in> set (requested sources))"
      by (simp only: map_of_rev_trace_dom)
  qed
  have f: "\<forall>s e. map_of (rev ?tr) s = Some (Inl e)
             \<longrightarrow> ?m s = Some \<lparr>sr_source = s, sr_query = q, sr_total_items = 0,
                               sr_items = [], sr_search_time_ms = 0\<rparr>"
    by (simp add: empty_response_def)
  have k: "\<forall>s r. map_of (rev ?tr) s = Some (Inr r) \<longrightarrow> ?m s = Some r"
    by simp
  from ret d f k
  show "\<exists>m w'. search_all_sources E q n sources w = (Inr m, w')
           \<and> dom m = set (requested sources)
           \<and> (\<forall>s e. map_of (rev ?tr) s = Some (Inl e)
                 \<longrightarrow> m s = Some \<lparr>sr_source = s, sr_query = q, sr_total_items = 0,
                                  sr_items = [], sr_search_time_ms = 0\<rparr>)
           \<and> (\<forall>s r. map_of (rev ?tr) s = Some (Inr r) \<longrightarrow> m s = Some r)"
    by blast
next
  assume "first_other_exception (map snd (search_trace E q n (requested sources) w)) = Some x"
  from await_tasks_raises [OF this, of Map.empty]
  show "fst (search_all_sources E q n sources w) = Inl x"
    by (simp add: search_all_sources_def requested_def)
qed

theorem fan_out_isolation_witness:
  "list_all adapter_outcome
     (map snd (search_trace env_fan_out ''dune'' 10 (requested None) w_empty))
   \<and> (\<exists>m w'. search_all_sources env_fan_out ''dune'' 10 None w_empty = (Inr m, w')
         \<and> dom m = {GOOGLE_BOOKS, OPEN_LIBRARY}
         \<and> m GOOGLE_BOOKS = Some \<lparr>sr_source = GOOGLE_BOOKS, sr_query = ''dune'',
                                   sr_total_items = 0, sr_items = [], sr_search_time_ms = 0\<rparr>
         \<and> map_option sr_total_items (m OPEN_LIBRARY) = Some 1)
   \<and> first_other_exception
       (map snd (search_trace env_array_body ''dune'' 10
                   (requested (Some [OPEN_LIBRARY, GOOGLE_BOOKS])) w_empty)) = Some PyError
   \<and> fst (search_all_sources env_array_body ''dune'' 10 (Some [OPEN_LIBRARY, GOOGLE_BOOKS])
            w_empty) = Inl PyError"
proof -
  have h: "list_all adapter_outcome
             (map snd (search_trace env_fan_out ''dune'' 10 (requested None) w_empty))"
    by code_simp
  have g: "map_of (rev (search_trace env_fan_out ''dune'' 10 (requested None) w_empty))
             GOOGLE_BOOKS
           = Some (Inl (ExternalAPIError GOOGLE_BOOKS RateLimitExceeded (Some 429)))"
    by code_simp
  have o: "case map_of (rev (search_trace env_fan_out ''dune'' 10 (requested None) w_empty))
                  OPEN_LIBRARY of
             Some (Inr r) \<Rightarrow> sr_total_items r = 1 | _ \<Rightarrow> False"
    by code_simp
  then obtain r where
    o': "map_of (rev (search_trace env_fan_out ''dune'' 10 (requested None) w_empty))
           OPEN_LIBRARY = Some (Inr r)" and r: "sr_total_items r = 1"
    by (auto split: option.splits sum.splits)
  have req: "set (requested None) = {GOOGLE_BOOKS, OPEN_LIBRARY}"
    by (simp add: requested_def)
  from fan_out_isolation [of env_fan_out "''dune''" 10 None w_empty] h obtain m w' where
    "search_all_sources env_fan_out ''dune'' 10 None w_empty = (Inr m, w')"
    "dom m = set (requested None)"
    "m GOOGLE_BOOKS = Some \<lparr>sr_source = GOOGLE_BOOKS, sr_query = ''dune'',
                            sr_total_items = 0, sr_items = [], sr_search_time_ms = 0\<rparr>"
    "m OPEN_LIBRARY = Some r"
    using g o' by blast
  with r req have first: "\<exists>m w'. search_all_sources env_fan_out ''dune'' 10 None w_empty
           = (Inr m, w')
         \<and> dom m = {GOOGLE_BOOKS, OPEN_LIBRARY}
         \<and> m GOOGLE_BOOKS = Some \<lparr>sr_source = GOOGLE_BOOKS, sr_query = ''dune'',
                                   sr_total_items = 0, sr_items = [], sr_search_time_ms = 0\<rparr>
         \<and> map_option sr_total_items (m OPEN_LIBRARY) = Some 1"
    by auto
  have x: "first_other_exception
       (map snd (search_trace env_array_body ''dune'' 10
                   (requested (Some [OPEN_LIBRARY, GOOGLE_BOOKS])) w_empty)) = Some PyError"
    by code_simp
  from fan_out_isolation [of env_array_body "''dune''" 10 "Some [OPEN_LIBRARY, GOOGLE_BOOKS]"
      w_empty PyError] x
  have second: "fst (search_all_sources env_array_body ''dune'' 10
                       (Some [OPEN_LIBRARY, GOOGLE_BOOKS]) w_empty) = Inl PyError"
    by blast
  from h first x second show ?thesis by blast
qed


subsection \<open>Order of the searches\<close>

lemma search_google_books_returns:
  assumes "search_google_books E q n si lg pt ob w = (Inr r, w1)"
  shows "ticks w1 = ticks w + 2
       \<and> sr_search_time_ms r = elapsed_ms E (clock E (ticks w + 1)) (clock E (ticks w))"
  using assms
  by (auto simp: search_google_books_def build_search_response_def now_def http_get_def
           split: http_outcome.splits option.splits prod.splits if_splits)

lemma search_open_library_returns:
  assumes "search_open_library E q n pg w = (Inr r, w1)"
  shows "ticks w1 = ticks w + 2
       \<and> sr_search_time_ms r = elapsed_ms E (clock E (ticks w + 1)) (clock E (ticks w))"
  using assms
  by (auto simp: search_open_library_def build_search_response_def now_def http_get_def
           split: http_outcome.splits option.splits prod.splits if_splits)

text \<open>
  With both sources requested and both searches returning, the Open Library search
  runs in the state that the finished Google Books search left: its request follows
  the answered Google Books request, and its start time is the third clock reading of
  the fan-out, taken after the second one, which is the end time of the Google Books
  search.
\<close>

lemma second_search_starts_after_first_ends:
  assumes "search_google_books E q n 0 None None None w = (Inr rg, w1)"
      and "search_open_library E q n 1 w1 = (Inr ro, w2)"
  shows "search_all_sources E q n (Some [GOOGLE_BOOKS, OPEN_LIBRARY]) w
           = (Inr [GOOGLE_BOOKS \<mapsto> rg, OPEN_LIBRARY \<mapsto> ro], w2)
       \<and> sr_search_time_ms rg = elapsed_ms E (clock E (ticks w + 1)) (clock E (ticks w))
       \<and> sr_search_time_ms ro = elapsed_ms E (clock E (ticks w + 3)) (clock E (ticks w + 2))
       \<and> sent w2 = sent w @ [google_search_request E q n 0 None None None,
                             open_library_search_request q n 1]"
proof -
  from search_google_books_returns [OF assms(1)] have
    g: "ticks w1 = ticks w + 2"
       "sr_search_time_ms rg = elapsed_ms E (clock E (ticks w + 1)) (clock E (ticks w))"
    by simp_all
  from search_open_library_returns [OF assms(2)] g(1) have
    o: "sr_search_time_ms ro = elapsed_ms E (clock E (ticks w + 3)) (clock E (ticks w + 2))"
    by (simp add: numeral_3_eq_3)
  have s1: "sent w1 = sent w @ [google_search_request E q n 0 None None None]"
    using sent_search_google_books [of E q n 0 None None None w] assms(1) by simp
  have s2: "sent w2 = sent w1 @ [open_library_search_request q n 1]"
    using sent_search_open_library [of E q n 1 w1] assms(2) by simp
  have "search_all_sources E q n (Some [GOOGLE_BOOKS, OPEN_LIBRARY]) w
          = (Inr [GOOGLE_BOOKS \<mapsto> rg, OPEN_LIBRARY \<mapsto> ro], w2)"
    using assms by (simp add: search_all_sources_def)
  with g(2) o s1 s2 show ?thesis by simp
qed

text \<open>
  When the Google Books search raises an exception that is no \<open>ExternalAPIError\<close>, the
  Open Library search, although requested, is never started: no request goes to Open
  Library.
\<close>

lemma second_search_never_issued:
  assumes "fst (search_google_books E q n 0 None None None w) = Inl e"
      and "\<not> is_ExternalAPIError e"
  shows "fst (search_all_sources E q n (Some [GOOGLE_BOOKS, OPEN_LIBRARY]) w) = Inl e
       \<and> sent (snd (search_all_sources E q n (Some [GOOGLE_BOOKS, OPEN_LIBRARY]) w))
           = sent w @ [google_search_request E q n 0 None None None]"
proof -
  obtain out w1 where g: "search_google_books E q n 0 None None None w = (out, w1)"
    by (cases "search_google_books E q n 0 None None None w")
  with assms(1) have out: "out = Inl e" by simp
  have "sent w1 = sent w @ [google_search_request E q n 0 None None None]"
    using sent_search_google_books [of E q n 0 None None None w] g by simp
  with g out assms(2) show ?thesis by (simp add: search_all_sources_def)
qed

text \<open>
  Claim C9 (every per-source search is issued before any of them is awaited, so that a
  slow or failing source does not hold up the others), evaluated on the default fan-out
  over both sources. First with a Google Books search that takes two seconds: the clock
  shows 0 and 2000 at the start and the end of the Google Books search and 2001 and 2003
  at the start and the end of the Open Library search, so the Open Library search has
  started only after the Google Books search had ended, where the claim has both started
  before either is awaited. Then with a Google Books search that fails with an
  AttributeError: the only request ever sent is the one to Google Books.
\<close>

theorem fan_out_runs_searches_in_turn:
  "(case search_all_sources env_slow_first ''dune'' 10 None w_empty of
      (Inr m, w') \<Rightarrow>
        map_option sr_search_time_ms (m GOOGLE_BOOKS) = Some (2000 - 0)
      \<and> map_option sr_search_time_ms (m OPEN_LIBRARY) = Some (2003 - 2001)
      \<and> ticks w' = 4
      \<and> sent w' =
          [GET ''https://www.googleapis.com/books/v1/volumes''
             [(''q'', JStr ''dune''), (''maxResults'', JInt 10), (''startIndex'', JInt 0)],
           GET ''https://openlibrary.org/search.json''
             [(''q'', JStr ''dune''), (''limit'', JInt 10), (''page'', JInt 1)]]
    | (Inl e, w') \<Rightarrow> False)
   \<and> sent (snd (search_all_sources env_array_body ''dune'' 10 None w_empty))
       = [GET ''https://www.googleapis.com/books/v1/volumes''
            [(''q'', JStr ''dune''), (''maxResults'', JInt 10), (''startIndex'', JInt 0)]]"
  by code_simp


section \<open>Properties of the store, the import and the refresh\<close>

text \<open>Fetching details sends requests and changes nothing else.\<close>

lemma ol_authors_loop_frame:
  "\<exists>reqs. snd (ol_authors_loop E refs acc w) = w\<lparr>sent := sent w @ reqs\<rparr>"
proof (induction refs arbitrary: acc w)
  case Nil
  have "w = w\<lparr>sent := sent w @ []\<rparr>" by simp
  then show ?case by (metis ol_authors_loop.simps(1) snd_conv)
next
  case (Cons a refs)
  have pass: "\<exists>reqs. snd (ol_authors_loop E refs acc' (w\<lparr>sent := sent w @ [r]\<rparr>))
                 = w\<lparr>sent := sent w @ reqs\<rparr>" for acc' r
  proof -
    from Cons.IH [of acc' "w\<lparr>sent := sent w @ [r]\<rparr>"] obtain reqs where
      "snd (ol_authors_loop E refs acc' (w\<lparr>sent := sent w @ [r]\<rparr>))
         = w\<lparr>sent := sent w @ [r]\<rparr>\<lparr>sent := sent (w\<lparr>sent := sent w @ [r]\<rparr>) @ reqs\<rparr>"
      by blast
    then have "snd (ol_authors_loop E refs acc' (w\<lparr>sent := sent w @ [r]\<rparr>))
         = w\<lparr>sent := sent w @ ([r] @ reqs)\<rparr>" by simp
    then show ?thesis by blast
  qed
  have skip: "\<exists>reqs. w = w\<lparr>sent := sent w @ reqs\<rparr>"
    by (rule exI [of _ "[]"]) simp
  show ?case
    using pass Cons.IH [of _ w] skip
    by (auto simp: http_get_def split: option.splits http_outcome.splits prod.splits)
qed

lemma google_details_frame:
  "\<exists>reqs. snd (get_google_book_details E eid w) = w\<lparr>sent := sent w @ reqs\<rparr> \<and> reqs \<noteq> []"
  by (auto simp: get_google_book_details_def http_get_def
           split: http_outcome.splits option.splits prod.splits)

lemma open_library_details_frame:
  "\<exists>reqs. snd (get_open_library_book_details E eid w) = w\<lparr>sent := sent w @ reqs\<rparr>
         \<and> reqs \<noteq> []"
proof -
  let ?r = "GET (OPEN_LIBRARY_BASE_URL @ ''/works/'' @ eid @ ''.json'') []"
  let ?w1 = "w\<lparr>sent := sent w @ [?r]\<rparr>"
  have one: "\<exists>reqs. ?w1 = w\<lparr>sent := sent w @ reqs\<rparr> \<and> reqs \<noteq> []"
    by (rule exI [of _ "[?r]"]) simp
  have more: "\<exists>reqs. snd (ol_authors_loop E refs [] ?w1) = w\<lparr>sent := sent w @ reqs\<rparr>
                \<and> reqs \<noteq> []" for refs
  proof -
    from ol_authors_loop_frame [of E refs "[]" ?w1] obtain reqs where
      "snd (ol_authors_loop E refs [] ?w1) = ?w1\<lparr>sent := sent ?w1 @ reqs\<rparr>" by blast
    then have "snd (ol_authors_loop E refs [] ?w1) = w\<lparr>sent := sent w @ (?r # reqs)\<rparr>"
      by simp
    then show ?thesis by blast
  qed
  have "snd (get_open_library_book_details E eid w) = ?w1
        \<or> (\<exists>refs. snd (get_open_library_book_details E eid w)
                      = snd (ol_authors_loop E refs [] ?w1))"
    unfolding get_open_library_book_details_def http_get_def
    by (auto split: http_outcome.splits option.splits prod.splits) (metis snd_conv)+
  then show ?thesis
    using one more by metis
qed

lemma details_by_name_frame:
  "\<exists>reqs. snd (get_details_by_name E src eid w) = w\<lparr>sent := sent w @ reqs\<rparr>"
proof -
  have "w = w\<lparr>sent := sent w @ []\<rparr>" by simp
  then have "\<exists>reqs. w = w\<lparr>sent := sent w @ reqs\<rparr>" by (rule exI)
  then show ?thesis
    using google_details_frame [of E eid w] open_library_details_frame [of E eid w]
    by (auto simp: get_details_by_name_def)
qed

lemma find_map_replace:
  "find (\<lambda>b. b_id b = i) xs = Some b \<Longrightarrow> b_id b' = i \<Longrightarrow>
   find (\<lambda>b. b_id b = i) (map (\<lambda>x. if b_id x = i then b' else x) xs) = Some b'"
  by (induction xs) (auto split: if_splits)

lemma find_map_other:
  "b_id b' = i \<Longrightarrow> j \<noteq> i \<Longrightarrow>
   find (\<lambda>b. b_id b = j) (map (\<lambda>x. if b_id x = i then b' else x) xs)
     = find (\<lambda>b. b_id b = j) xs"
  by (induction xs) auto

lemma find_id: "find (\<lambda>b. b_id b = i) xs = Some b \<Longrightarrow> b_id b = i"
  by (induction xs) (auto split: if_splits)


subsection \<open>Refresh\<close>

text \<open>
  Claim C8 as the specification states it: the refresh overwrites only the metadata
  fields and \<open>last_fetched_at\<close>. One more column changes: the store stamps
  \<open>updated_at\<close> on the committed update. A successful refresh of a record whose
  \<open>updated_at\<close> was empty leaves it set.
\<close>

theorem refresh_stamps_updated_at:
  "b_updated_at row_dune = None
   \<and> (case update_metadata_async env_dune ''google_books'' ''zyTCAlFPjgYC'' 7 w_imported of
         (Inr res, w') \<Rightarrow> ur_success res \<and> map b_updated_at (rows w') = [Some 1001]
       | (Inl e, w') \<Rightarrow> False)"
  by code_simp

text \<open>
  Claim C8, amended: a successful run of \<open>_update_metadata_async\<close> on an existing
  record overwrites the metadata fields with what the adapter fetched, without
  overrides, sets \<open>last_fetched_at\<close> to the clock reading of the run, and has
  \<open>updated_at\<close> stamped by the store with the time of the commit. It leaves
  \<open>imported_at\<close>, \<open>imported_by_id\<close>, \<open>is_imported\<close>, \<open>imported_book_id\<close> and
  \<open>created_at\<close> as they were, and with them the primary key, the key pair and
  \<open>download_url\<close>: every column of the record is accounted for. No other record
  changes.
\<close>

theorem refresh_frame:
  assumes "update_metadata_async E src eid external_book_id w = (Inr res, w')"
      and "ur_success res"
  shows "\<exists>book book' book_data w1.
           get_details_by_name E src eid w = (Inr book_data, w1)
         \<and> db_get w external_book_id = Some book
         \<and> db_get w' external_book_id = Some book'
         \<and> (\<forall>j. j \<noteq> external_book_id \<longrightarrow> db_get w' j = db_get w j)
         \<and> b_imported_at book' = b_imported_at book
         \<and> b_imported_by_id book' = b_imported_by_id book
         \<and> b_is_imported book' = b_is_imported book
         \<and> b_imported_book_id book' = b_imported_book_id book
         \<and> b_created_at book' = b_created_at book
         \<and> b_id book' = b_id book
         \<and> b_source book' = b_source book
         \<and> b_external_id book' = b_external_id book
         \<and> b_download_url book' = b_download_url book
         \<and> b_last_fetched_at book' = Some (clock E (ticks w))
         \<and> b_updated_at book' = Some (clock E (Suc (ticks w)))
         \<and> b_title book' = title book_data
         \<and> b_authors book' = Some (authors book_data)
         \<and> b_description book' = description book_data
         \<and> b_cover_url book' = thumbnail_url book_data
         \<and> b_published_date book' = published_date book_data
         \<and> b_published_year book' = parse_published_year (lib E) (published_date book_data)
         \<and> b_language book' = language book_data
         \<and> b_categories book' = Some (categories book_data)
         \<and> b_isbn_10 book' = isbn_10 book_data
         \<and> b_isbn_13 book' = isbn_13 book_data
         \<and> b_publisher book' = publisher book_data
         \<and> b_page_count book' = page_count book_data
         \<and> b_average_rating book' = average_rating book_data
         \<and> b_ratings_count book' = ratings_count book_data
         \<and> b_preview_link book' = preview_link book_data
         \<and> b_info_link book' = info_link book_data
         \<and> b_metadata_json book' = Some (raw_metadata book_data)"
proof -
  obtain out w1 where d: "get_details_by_name E src eid w = (out, w1)"
    by (cases "get_details_by_name E src eid w")
  from details_by_name_frame [of E src eid w] d obtain reqs where
    w1: "w1 = w\<lparr>sent := sent w @ reqs\<rparr>" by auto
  from assms d obtain book_data where out: "out = Inr book_data"
    by (cases out) (auto simp: update_metadata_async_def)
  from assms d out obtain book where book: "db_get w1 external_book_id = Some book"
    by (cases "db_get w1 external_book_id")
       (auto simp: update_metadata_async_def not_found_result_def)
  have book0: "db_get w external_book_id = Some book"
    using book w1 by (simp add: db_get_def)
  have idb: "b_id book = external_book_id"
    using book0 by (auto simp: db_get_def dest: find_id)
  define book' where "book' = refresh_fields book_data
      (parse_published_year (lib E) (published_date book_data)) (clock E (ticks w)) book
      \<lparr>b_updated_at := Some (clock E (Suc (ticks w)))\<rparr>"
  have rows': "rows w' = map (\<lambda>x. if b_id x = external_book_id then book' else x) (rows w)"
    using assms(1) d out book w1 idb
    by (auto simp: update_metadata_async_def now_def db_commit_update_def book'_def
          refresh_fields_def Let_def split: if_splits)
  have idb': "b_id book' = external_book_id"
    using idb by (simp add: book'_def refresh_fields_def)
  have g: "db_get w' external_book_id = Some book'"
    using book0 idb' unfolding db_get_def rows' by (rule find_map_replace)
  have o: "\<forall>j. j \<noteq> external_book_id \<longrightarrow> db_get w' j = db_get w j"
    using idb' unfolding db_get_def rows' by (simp add: find_map_other)
  show ?thesis
    apply (rule exI [of _ book], rule exI [of _ book'], rule exI [of _ book_data],
           rule exI [of _ w1])
    using d out book0 g o
    by (simp add: book'_def refresh_fields_def)
qed

theorem refresh_frame_witness:
  "\<exists>res w' book'.
     update_metadata_async env_dune ''google_books'' ''zyTCAlFPjgYC'' 7 w_imported = (Inr res, w')
   \<and> ur_success res
   \<and> db_get w' 7 = Some book'
   \<and> b_imported_at book' = Some 10 \<and> b_imported_by_id book' = Some 1 \<and> b_is_imported book'
   \<and> b_imported_book_id book' = None \<and> b_created_at book' = 10
   \<and> b_last_fetched_at book' = Some 1000 \<and> b_updated_at book' = Some 1001"
proof -
  have "case update_metadata_async env_dune ''google_books'' ''zyTCAlFPjgYC'' 7 w_imported of
          (Inr res, w') \<Rightarrow> ur_success res | _ \<Rightarrow> False"
    by code_simp
  then obtain res w' where
    h1: "update_metadata_async env_dune ''google_books'' ''zyTCAlFPjgYC'' 7 w_imported
           = (Inr res, w')" and
    h2: "ur_success res"
    by (auto split: prod.splits sum.splits)
  have row: "db_get w_imported 7 = Some row_dune"
    by (simp add: db_get_def w_imported_def row_dune_def)
  have now: "clock env_dune (ticks w_imported) = 1000"
    "clock env_dune (Suc (ticks w_imported)) = 1001"
    by (simp_all add: env_dune_def w_imported_def)
  from refresh_frame [OF h1 h2] row now obtain book' where
    "db_get w' 7 = Some book'"
    "b_imported_at book' = b_imported_at row_dune"
    "b_imported_by_id book' = b_imported_by_id row_dune"
    "b_is_imported book' = b_is_imported row_dune"
    "b_imported_book_id book' = b_imported_book_id row_dune"
    "b_created_at book' = b_created_at row_dune"
    "b_last_fetched_at book' = Some 1000"
    "b_updated_at book' = Some 1001"
    by auto
  with h1 h2 show ?thesis by (auto simp: row_dune_def)
qed


subsection \<open>Importing\<close>

lemma get_details_frame:
  "\<exists>reqs. snd (get_details E s eid w) = w\<lparr>sent := sent w @ reqs\<rparr> \<and> reqs \<noteq> []"
  using google_details_frame [of E eid w] open_library_details_frame [of E eid w]
  by (cases s) auto

lemma sent_store_import:
  "sent (snd (store_import E existing src eid bd ot od ol uid w)) = sent w"
  by (auto simp: store_import_def now_def db_commit_update_def db_commit_insert_def Let_def
           split: option.splits prod.splits sum.splits)

text \<open>
  The endpoint on a record that is already imported, in a session in which no commit
  has failed: success with the id of the record and the message of the short cut, and
  the state as it was, so no request has been sent.
\<close>

lemma import_external_book_already_imported:
  assumes "db_find_key w (source_value (rq_source request)) (rq_external_id request) = Some row"
      and "b_is_imported row" and "\<not> session_failed w"
  shows "import_external_book E uid request w =
           (Inr \<lparr>ir_external_id = rq_external_id request, ir_source = rq_source request,
                 ir_success = True, ir_message = ''Book already imported'',
                 ir_external_book_id = Some (b_id row), ir_error = None\<rparr>, w)"
  using assms by (simp add: import_external_book_def Let_def)

lemma find_append:
  "find P (xs @ ys) = (case find P xs of None \<Rightarrow> find P ys | Some x \<Rightarrow> Some x)"
  by (induction xs) auto

lemma find_SomeD: "find P xs = Some x \<Longrightarrow> P x"
  by (induction xs) (auto split: if_splits)

lemma find_key_map_replace:
  "find P xs = Some row \<Longrightarrow> P row' \<Longrightarrow>
   find P (map (\<lambda>x. if b_id x = b_id row then row' else x) xs) = Some row'"
  by (induction xs) (auto split: if_splits)

lemma store_import_found:
  assumes "store_import E (db_find_key w src eid) src eid bd ot od ol uid w = (Inr i, w')"
  shows "\<exists>row. db_find_key w' src eid = Some row \<and> b_is_imported row \<and> b_id row = i
           \<and> session_failed w' = session_failed w"
proof (cases "db_find_key w src eid")
  case None
  let ?t1 = "clock E (ticks w)" and ?t2 = "clock E (Suc (ticks w))"
  let ?row = "new_import_row src eid bd (parse_published_year (lib E) (published_date bd))
                ot od ol uid ?t1 ?t2
                \<lparr>b_id := next_id w, b_created_at := clock E (Suc (Suc (ticks w)))\<rparr>"
  from assms None have w': "rows w' = rows w @ [?row]" and i: "i = next_id w"
    and sf: "session_failed w' = session_failed w"
    by (auto simp: store_import_def now_def db_commit_insert_def Let_def split: if_splits)
  have "db_find_key w' src eid = Some ?row"
    using None unfolding db_find_key_def w'
    by (simp add: find_append new_import_row_def)
  then show ?thesis using i sf by (simp add: new_import_row_def)
next
  case (Some row)
  let ?t1 = "clock E (ticks w)" and ?t2 = "clock E (Suc (ticks w))"
  let ?row = "import_fields bd (parse_published_year (lib E) (published_date bd))
                ot od ol uid ?t1 ?t2 row
                \<lparr>b_updated_at := Some (clock E (Suc (Suc (ticks w))))\<rparr>"
  from assms Some have
    w': "rows w' = map (\<lambda>x. if b_id x = b_id row then ?row else x) (rows w)" and
    i: "i = b_id row" and sf: "session_failed w' = session_failed w"
    by (auto simp: store_import_def now_def db_commit_update_def Let_def import_fields_def
             split: if_splits)
  from Some have key: "b_source row = src \<and> b_external_id row = eid"
    unfolding db_find_key_def by (rule find_SomeD)
  have "db_find_key w' src eid = Some ?row"
    using Some key unfolding db_find_key_def w'
    by (intro find_key_map_replace) (auto simp: import_fields_def)
  then show ?thesis using i sf by (simp add: import_fields_def)
qed

text \<open>
  The endpoint called again after a successful import: the second call takes the short
  cut, returns the same record id and leaves the state, and with it the list of
  requests sent, as the first call left it.
\<close>

lemma import_external_book_twice:
  assumes "import_external_book E uid request w = (Inr res, w1)" and "ir_success res"
  shows "\<exists>res2. import_external_book E uid request w1 = (Inr res2, w1)
           \<and> ir_success res2
           \<and> ir_external_book_id res2 = ir_external_book_id res
           \<and> ir_message res2 = ''Book already imported''"
proof -
  let ?src = "source_value (rq_source request)" and ?eid = "rq_external_id request"
  show ?thesis
  proof (cases "case db_find_key w ?src ?eid of Some row \<Rightarrow> b_is_imported row | None \<Rightarrow> False")
    case True
    with assms(1) have "w1 = w" and "\<not> session_failed w" and
      "ir_external_book_id res = map_option b_id (db_find_key w ?src ?eid)"
      by (auto simp: import_external_book_def Let_def split: if_splits)
    with True show ?thesis
      by (auto simp: import_external_book_def Let_def split: option.splits)
  next
    case False
    obtain out w0 where d: "get_details E (rq_source request) ?eid w = (out, w0)"
      by (cases "get_details E (rq_source request) ?eid w")
    from get_details_frame [of E "rq_source request" ?eid w] d obtain reqs where
      w0: "w0 = w\<lparr>sent := sent w @ reqs\<rparr>" by auto
    from assms(1) have ok: "\<not> session_failed w"
      by (auto simp: import_external_book_def Let_def split: if_splits)
    from assms False d obtain bd where out: "out = Inr bd"
      by (cases out) (auto simp: import_external_book_def Let_def split: if_splits)
    have same: "db_find_key w0 ?src ?eid = db_find_key w ?src ?eid"
      using w0 by (simp add: db_find_key_def)
    obtain i where
      st: "store_import E (db_find_key w0 ?src ?eid) ?src ?eid bd (rq_title request)
             (rq_description request) (rq_language request) (Some uid) w0 = (Inr i, w1)" and
      i: "ir_external_book_id res = Some i"
      using assms(1) False d out same ok
      by (auto simp: import_external_book_def Let_def split: prod.splits sum.splits)
    from store_import_found [OF st] obtain row where
      "db_find_key w1 ?src ?eid = Some row" "b_is_imported row" "b_id row = i"
      "session_failed w1 = session_failed w0" by blast
    with i ok w0 show ?thesis
      by (simp add: import_external_book_already_imported)
  qed
qed

text \<open>
  The task body has no such short cut: for a supported source it always sends at least
  one request, whatever the store holds.
\<close>

lemma import_book_async_always_fetches:
  assumes "src = ''google_books'' \<or> src = ''open_library''"
  shows "\<exists>reqs. sent (snd (import_book_async E src eid uid ov w)) = sent w @ reqs \<and> reqs \<noteq> []"
proof -
  obtain out w1 where d: "get_details_by_name E src eid w = (out, w1)"
    by (cases "get_details_by_name E src eid w")
  from assms d google_details_frame [of E eid w] open_library_details_frame [of E eid w]
  obtain reqs where w1: "sent w1 = sent w @ reqs" "reqs \<noteq> []"
    by (auto simp: get_details_by_name_def)
  have st: "sent w2 = sent w1"
    if "store_import E existing src eid bd ot od ol uid w1 = (i, w2)"
    for existing bd ot od ol i w2
    using sent_store_import [of E existing src eid bd ot od ol uid w1] that by simp
  show ?thesis
    using d w1
    by (cases out)
       (auto simp: import_book_async_def Let_def split: prod.splits sum.splits dest!: st)
qed

text \<open>
  Claim C1 (an imported record is returned without any adapter call, so two imports of
  one key make one adapter call), evaluated on the task body \<open>_import_book_async\<close> with
  the record of the key already imported by user 1: the task sends the details request
  again, reports a fresh import instead of "already imported", and overwrites
  \<open>imported_by_id\<close> and \<open>imported_at\<close>. The endpoint \<open>import_external_book\<close> has the
  short cut (the two lemmas above); the task body lacks it.
\<close>

theorem import_task_refetches_imported_book:
  "(case import_book_async env_dune ''google_books'' ''zyTCAlFPjgYC'' (Some 2) None w_imported of
      (r, w') \<Rightarrow>
        sent w' = [GET ''https://www.googleapis.com/books/v1/volumes/zyTCAlFPjgYC'' []]
      \<and> r = Inr \<lparr>tr_success = True, tr_external_id = ''zyTCAlFPjgYC'',
                 tr_source = ''google_books'', tr_external_book_id = Some 7,
                 tr_message = Some ''Book imported successfully'', tr_error = None\<rparr>
      \<and> map b_imported_by_id (rows w') = [Some 2]
      \<and> map b_imported_at (rows w') = [Some 1000])"
  by code_simp


section \<open>Properties of the background tasks\<close>

subsection \<open>Retries\<close>

text \<open>A request that times out or fails to connect raises an error without status code.\<close>

lemma timeout_has_no_status:
  assumes "http E (sent w) (GET (GOOGLE_BOOKS_BASE_URL @ ''/volumes/'' @ eid)
                              (opt_param ''key'' (google_api_key E))) = TimeoutException
         \<or> http E (sent w) (GET (GOOGLE_BOOKS_BASE_URL @ ''/volumes/'' @ eid)
                              (opt_param ''key'' (google_api_key E))) = RequestError m"
  shows "\<exists>e. fst (get_google_book_details E eid w) = Inl e \<and> is_ExternalAPIError e
           \<and> status_code e = None \<and> \<not> rate_limited e"
  using assms by (auto simp: get_google_book_details_def http_get_def rate_limited_def)

text \<open>
  Claim C4 as the specification states it: a background import whose adapter call times
  out is rescheduled like a rate-limited one. With an upstream that times out, the first
  run of \<open>import_single_book\<close> returns the failed outcome at once; no retry is scheduled.
\<close>

theorem timeout_not_retried:
  "fst (import_single_book env_timeout 0 ''google_books'' ''zyTCAlFPjgYC'' (Some 1) None w_empty)
     = Returned \<lparr>tr_success = False, tr_external_id = ''zyTCAlFPjgYC'',
                 tr_source = ''google_books'', tr_external_book_id = None,
                 tr_message = None,
                 tr_error = Some (StrOf (ExternalAPIError GOOGLE_BOOKS RequestTimedOut None))\<rparr>"
  by code_simp

text \<open>
  Claim C4, amended: in \<open>import_single_book\<close> and in \<open>update_book_metadata\<close> only an
  adapter error with status 429 is retried, after \<open>60 * (retries + 1)\<close> seconds and at
  most three times, after which the error is raised; every other failure of the adapter
  call (a timeout, a connection error, 404, any other status, any other exception) is
  returned as a failed outcome by the run in which it happens, with no retry.
\<close>

theorem retry_only_on_rate_limit:
  "(import_book_async E src eid uid ov w = (Inl e, w1) \<longrightarrow>
      fst (import_single_book E retries src eid uid ov w)
        = bounded_backoff retries e (failed_result src eid e))
   \<and> (db_get w bid = Some book
        \<and> update_metadata_async E (b_source book) (b_external_id book) bid w = (Inl e', w2) \<longrightarrow>
      fst (update_book_metadata E retries bid w)
        = bounded_backoff retries e' (failed_update bid e'))"
  by (auto simp: import_single_book_def update_book_metadata_def run_async_def
        bounded_backoff_def rate_limited_def retry_def)

theorem retry_only_on_rate_limit_witness:
  "import_book_async env_rate_limited ''google_books'' ''zyTCAlFPjgYC'' (Some 1) None w_empty
     = (Inl (ExternalAPIError GOOGLE_BOOKS (ApiReturnedStatus 429) (Some 429)),
        w_empty\<lparr>sent := [GET ''https://www.googleapis.com/books/v1/volumes/zyTCAlFPjgYC'' []]\<rparr>)
   \<and> fst (import_single_book env_rate_limited 1 ''google_books'' ''zyTCAlFPjgYC'' (Some 1) None
            w_empty)
     = RetryScheduled 120
   \<and> db_get w_imported 7 = Some row_dune
   \<and> update_metadata_async env_rate_limited (b_source row_dune) (b_external_id row_dune) 7
        w_imported
     = (Inl (ExternalAPIError GOOGLE_BOOKS (ApiReturnedStatus 429) (Some 429)),
        w_imported\<lparr>sent := [GET ''https://www.googleapis.com/books/v1/volumes/zyTCAlFPjgYC'' []]\<rparr>)
   \<and> fst (update_book_metadata env_rate_limited 3 7 w_imported)
     = Raised (ExternalAPIError GOOGLE_BOOKS (ApiReturnedStatus 429) (Some 429))"
proof -
  have h1: "import_book_async env_rate_limited ''google_books'' ''zyTCAlFPjgYC'' (Some 1) None
              w_empty
     = (Inl (ExternalAPIError GOOGLE_BOOKS (ApiReturnedStatus 429) (Some 429)),
        w_empty\<lparr>sent := [GET ''https://www.googleapis.com/books/v1/volumes/zyTCAlFPjgYC'' []]\<rparr>)"
    by code_simp
  have h2: "db_get w_imported 7 = Some row_dune"
    by (simp add: db_get_def w_imported_def row_dune_def)
  have h3: "update_metadata_async env_rate_limited (b_source row_dune) (b_external_id row_dune)
              7 w_imported
     = (Inl (ExternalAPIError GOOGLE_BOOKS (ApiReturnedStatus 429) (Some 429)),
        w_imported\<lparr>sent := [GET ''https://www.googleapis.com/books/v1/volumes/zyTCAlFPjgYC'' []]\<rparr>)"
    by code_simp
  from retry_only_on_rate_limit [where E = env_rate_limited and src = "''google_books''"
      and eid = "''zyTCAlFPjgYC''" and uid = "Some 1" and ov = None and w = w_empty
      and retries = 1] h1
  have a: "fst (import_single_book env_rate_limited 1 ''google_books'' ''zyTCAlFPjgYC'' (Some 1)
                  None w_empty) = RetryScheduled 120"
    by (simp add: bounded_backoff_def rate_limited_def)
  from retry_only_on_rate_limit [where E = env_rate_limited and w = w_imported
      and bid = 7 and book = row_dune and retries = 3] h2 h3
  have b: "fst (update_book_metadata env_rate_limited 3 7 w_imported)
             = Raised (ExternalAPIError GOOGLE_BOOKS (ApiReturnedStatus 429) (Some 429))"
    by (simp add: bounded_backoff_def rate_limited_def)
  from h1 h2 h3 a b show ?thesis by blast
qed


subsection \<open>Bulk import\<close>

text \<open>
  The task: after the first item the thread's current event loop is the one that
  \<open>run_async\<close> closed, so the delay before the second item raises. Every batch of two or
  more items ends there.
\<close>

lemma bulk_import_books_raises:
  "fst (bulk_import_books E (a # b # rest) uid w) = Raised (RuntimeError ''Event loop is closed'')"
  by (simp add: bulk_import_books_def run_async_def sleep_on_current_loop_def
        split: prod.splits)

text \<open>A batch of one item is processed and reported.\<close>

lemma bulk_import_books_single:
  "\<exists>res. fst (bulk_import_books E [a] uid w)
            = Returned \<lparr>br_total = 1,
                        br_successful = (if tr_success res then 1 else 0),
                        br_failed = (if tr_success res then 0 else 1),
                        br_results = [res]\<rparr>"
  by (auto simp: bulk_import_books_def run_async_def Let_def split: prod.splits sum.splits)

text \<open>
  The endpoint has no delay between items. It returns a report for every input: one
  outcome per item in input order, an exception of an item turned into a failed
  outcome, and the counters equal to the numbers of successful and of failed outcomes.
  Its items share the session of the request: once the commit of one item has failed,
  every later item of the request fails on the session.
\<close>

lemma import_external_book_failed_session:
  "session_failed w \<Longrightarrow> import_external_book E uid item w = (Inl PendingRollbackError, w)"
  by (simp add: import_external_book_def Let_def)

lemma import_external_book_ids:
  "import_external_book E uid item w = (Inr res, w') \<Longrightarrow>
   ir_external_id res = rq_external_id item \<and> ir_source res = rq_source item"
  by (auto simp: import_external_book_def Let_def
           split: if_splits prod.splits sum.splits option.splits)

lemma bulk_endpoint_loop_report:
  "bulk_endpoint_loop E uid items results successful failed w = ((results', s', f'), w') \<Longrightarrow>
   \<exists>new. results' = results @ new
        \<and> map ir_external_id new = map rq_external_id items
        \<and> map ir_source new = map rq_source items
        \<and> s' = successful + int (length (filter ir_success new))
        \<and> f' = failed + int (length (filter (\<lambda>r. \<not> ir_success r) new))"
proof (induction items arbitrary: results successful failed w)
  case Nil
  then show ?case by simp
next
  case (Cons item rest)
  obtain out w1 where i: "import_external_book E uid item w = (out, w1)"
    by (cases "import_external_book E uid item w")
  show ?case
  proof (cases out)
    case (Inr res)
    with Cons.prems i have
      "bulk_endpoint_loop E uid rest (results @ [res])
         (if ir_success res then successful + 1 else successful)
         (if ir_success res then failed else failed + 1) w1 = ((results', s', f'), w')"
      by simp
    from Cons.IH [OF this] obtain new where
      "results' = (results @ [res]) @ new"
      "map ir_external_id new = map rq_external_id rest"
      "map ir_source new = map rq_source rest"
      "s' = (if ir_success res then successful + 1 else successful)
              + int (length (filter ir_success new))"
      "f' = (if ir_success res then failed else failed + 1)
              + int (length (filter (\<lambda>r. \<not> ir_success r) new))"
      by blast
    with import_external_book_ids [of E uid item w res w1] i Inr
    show ?thesis by (intro exI [of _ "res # new"]) auto
  next
    case (Inl e)
    let ?res = "\<lparr>ir_external_id = rq_external_id item, ir_source = rq_source item,
                 ir_success = False, ir_message = ''Import failed'',
                 ir_external_book_id = None, ir_error = Some (StrOf e)\<rparr>"
    from Cons.prems i Inl have
      "bulk_endpoint_loop E uid rest (results @ [?res]) successful (failed + 1) w1
         = ((results', s', f'), w')"
      by simp
    from Cons.IH [OF this] obtain new where
      "results' = (results @ [?res]) @ new"
      "map ir_external_id new = map rq_external_id rest"
      "map ir_source new = map rq_source rest"
      "s' = successful + int (length (filter ir_success new))"
      "f' = (failed + 1) + int (length (filter (\<lambda>r. \<not> ir_success r) new))"
      by blast
    then show ?thesis by (intro exI [of _ "?res # new"]) auto
  qed
qed

lemma bulk_import_external_books_report:
  "\<exists>report w'. bulk_import_external_books E uid items w = (report, w')
     \<and> bi_total report = int (length items)
     \<and> length (bi_results report) = length items
     \<and> map ir_external_id (bi_results report) = map rq_external_id items
     \<and> map ir_source (bi_results report) = map rq_source items
     \<and> bi_successful report = int (length (filter ir_success (bi_results report)))
     \<and> bi_failed report = int (length (filter (\<lambda>r. \<not> ir_success r) (bi_results report)))"
proof -
  obtain results s f w' where l: "bulk_endpoint_loop E uid items [] 0 0 w = ((results, s, f), w')"
    by (metis prod_cases3 surj_pair)
  from bulk_endpoint_loop_report [OF l] have
    "map ir_external_id results = map rq_external_id items"
    "map ir_source results = map rq_source items"
    "s = int (length (filter ir_success results))"
    "f = int (length (filter (\<lambda>r. \<not> ir_success r) results))"
    by auto
  moreover from this(1) have "length results = length items" by (rule map_eq_imp_length_eq)
  ultimately show ?thesis using l by (simp add: bulk_import_external_books_def)
qed

text \<open>
  Claim C3 (bulk import processes every item and reports one outcome per item),
  evaluated on the task \<open>bulk_import_books\<close> with two items that both resolve: the task
  imports the first item and then raises \<open>RuntimeError\<close> at the delay between the
  items, where the claim promises a report with total 2. The endpoint
  \<open>bulk_import_external_books\<close> has no such delay and reports one outcome per item
  (the lemma above).
\<close>

theorem bulk_task_stops_after_first_item:
  "fst (bulk_import_books env_dune
          [\<lparr>it_source = ''google_books'', it_external_id = ''zyTCAlFPjgYC'', it_overrides = None\<rparr>,
           \<lparr>it_source = ''google_books'', it_external_id = ''B0000'', it_overrides = None\<rparr>]
          (Some 1) w_empty)
     = Raised (RuntimeError ''Event loop is closed'')
   \<and> length (sent (snd (bulk_import_books env_dune
          [\<lparr>it_source = ''google_books'', it_external_id = ''zyTCAlFPjgYC'', it_overrides = None\<rparr>,
           \<lparr>it_source = ''google_books'', it_external_id = ''B0000'', it_overrides = None\<rparr>]
          (Some 1) w_empty))) = 1"
  by code_simp

end
